theory Spec2Isabelle
  imports Main "HOL-Library.Word" "HOL-Library.AList" "HOL-Library.Multiset" "HOL-Library.Log_Nat"
begin

section \<open>The list-query pipeline of the sake catalogue backend\<close>

text \<open>
  A shallow embedding of the read path \<open>GET /sakes\<close>: the presentation handler
  (\<open>ListSakes\<close>, \<open>validateListSakesParams\<close>, \<open>handleError\<close>, \<open>toListSakesResponse\<close>,
  \<open>toSakeResponse\<close>), the use case (\<open>Execute\<close>), the repository adapter (\<open>List\<close>,
  \<open>toSakeEntity\<close>, \<open>extractCoordinates\<close>, \<open>convertNumericToFloat32\<close>) and the SQL of
  \<open>db/queries/sakes.sql\<close>.

  Conventions.
  \<^item> Go's \<open>int32\<close> and \<open>int64\<close> are \<open>32 word\<close> and \<open>64 word\<close>; comparisons are signed, so
    they are written on \<open>sint\<close>.
  \<^item> A pointer \<open>*T\<close> is \<open>T option\<close>, \<open>nil\<close> being \<open>None\<close>. A slice is a list; the nil slice
    and the empty slice are both \<open>[]\<close>.
  \<^item> A Go function returning \<open>(v, err)\<close> returns the pair here as well, the error being
    \<open>go_error option\<close> with \<open>None\<close> for \<open>nil\<close>.
  \<^item> A collaborator reached through an interface (the use case behind the handler, the
    repository behind the use case, the generated queries behind the repository) is a
    parameter. It acts on an explicit world \<open>'w\<close> that is passed through every call, so
    that calling it, and not calling it, are both visible in the result.
  \<^item> Logging and tracing calls (\<open>logger.TraceMethodAuto\<close>, \<open>logger.LogDatabaseError\<close>) write
    to the log only and are left out.
\<close>

subsection \<open>Machine integers, time, floating point\<close>

type_synonym int32 = "32 word"
type_synonym int64 = "64 word"

text \<open>\<open>time.Time\<close> as stored by PostgreSQL: microseconds since the epoch.\<close>

type_synonym Time = int

text \<open>
  An IEEE 754 binary value: a finite number (always a dyadic rational), an infinity or
  not-a-number. The two zeros are not distinguished. \<open>float32\<close> and \<open>float64\<close> share the
  carrier; what differs is the rounding that produces them.
\<close>

datatype ieee = Fin rat | PosInf | NegInf | NaN

type_synonym float32 = ieee
type_synonym float64 = ieee

subsection \<open>Errors (package apperror, and the errors of the driver)\<close>

text \<open>
  Go's \<open>error\<close> values that occur on the path: the sentinel \<open>pgx.ErrNoRows\<close>, an error
  made by \<open>errors.New\<close> or \<open>fmt.Errorf\<close> without \<open>%w\<close>, an error wrapping another one
  (\<open>fmt.Errorf\<close> with \<open>%w\<close>), \<open>*apperror.AppError\<close> and \<open>*apperror.ValidationError\<close>
  (which embeds an \<open>*AppError\<close>). \<open>AppError.Details\<close> is never set on this path and is
  left out. \<open>Fields\<close> is a Go map from field name to message: it is kept as an
  association list with distinct keys in insertion order; Go leaves the iteration order
  of a map open, so statements about it below do not depend on the order.
\<close>

datatype go_error =
    ErrNoRows
  | ErrorString string
  | WrapError string go_error
  | AppError (Code: string) (Message: string) (Status: int) (Err: "go_error option")
  | ValidationError (Code: string) (Message: string) (Status: int) (Err: "go_error option")
      (Fields: "(string \<times> string) list")

definition ErrCodeNotFound :: string where "ErrCodeNotFound = ''NOT_FOUND''"
definition ErrCodeInternalError :: string where "ErrCodeInternalError = ''INTERNAL_ERROR''"
definition ErrCodeDatabaseError :: string where "ErrCodeDatabaseError = ''DATABASE_ERROR''"
definition ErrCodeValidationError :: string where "ErrCodeValidationError = ''VALIDATION_ERROR''"

definition StatusOK :: int where "StatusOK = 200"
definition StatusBadRequest :: int where "StatusBadRequest = 400"
definition StatusNotFound :: int where "StatusNotFound = 404"
definition StatusInternalServerError :: int where "StatusInternalServerError = 500"

definition NotFoundError :: "string \<Rightarrow> go_error" where
  "NotFoundError message = AppError ErrCodeNotFound message StatusNotFound None"

definition DatabaseError :: "string \<Rightarrow> go_error \<Rightarrow> go_error" where
  "DatabaseError message err =
     AppError ErrCodeDatabaseError message StatusInternalServerError (Some err)"

definition NewValidationError :: "string \<Rightarrow> go_error" where
  "NewValidationError message =
     ValidationError ErrCodeValidationError message StatusBadRequest None []"

text \<open>\<open>e.Fields[field] = message\<close>: an existing key is overwritten, a new one is added.\<close>

fun AddField :: "go_error \<Rightarrow> string \<Rightarrow> string \<Rightarrow> go_error" where
  "AddField (ValidationError c m s e fs) field message =
     ValidationError c m s e (AList.update field message fs)"
| "AddField e field message = e"

fun HasErrors :: "go_error \<Rightarrow> bool" where
  "HasErrors (ValidationError c m s e fs) = (length fs > 0)"
| "HasErrors e = False"

text \<open>\<open>Unwrap\<close>, as each error type defines it (a \<open>ValidationError\<close> has the promoted one).\<close>

fun Unwrap :: "go_error \<Rightarrow> go_error option" where
  "Unwrap ErrNoRows = None"
| "Unwrap (ErrorString s) = None"
| "Unwrap (WrapError s e) = Some e"
| "Unwrap (AppError c m s e) = e"
| "Unwrap (ValidationError c m s e fs) = e"

text \<open>\<open>errors.Is(err, pgx.ErrNoRows)\<close>: the sentinel is somewhere in the chain.\<close>

fun errors_Is_ErrNoRows :: "go_error \<Rightarrow> bool" where
  "errors_Is_ErrNoRows ErrNoRows = True"
| "errors_Is_ErrNoRows (ErrorString s) = False"
| "errors_Is_ErrNoRows (WrapError s e) = errors_Is_ErrNoRows e"
| "errors_Is_ErrNoRows (AppError c m s e) =
     (case e of None \<Rightarrow> False | Some e' \<Rightarrow> errors_Is_ErrNoRows e')"
| "errors_Is_ErrNoRows (ValidationError c m s e fs) =
     (case e of None \<Rightarrow> False | Some e' \<Rightarrow> errors_Is_ErrNoRows e')"

text \<open>\<open>apperror.As\<close>: the first \<open>*AppError\<close> in the chain, or nil.\<close>

fun As :: "go_error \<Rightarrow> go_error option" where
  "As ErrNoRows = None"
| "As (ErrorString s) = None"
| "As (WrapError s e) = As e"
| "As (AppError c m s e) = Some (AppError c m s e)"
| "As (ValidationError c m s e fs) = (case e of None \<Rightarrow> None | Some e' \<Rightarrow> As e')"

text \<open>
  The message literals of the source are Japanese; each is kept as the bytes of its UTF-8
  encoding, with a translation beside it.
\<close>

definition msg_invalid_params :: string where
  "msg_invalid_params =
    [CHR 0xE3, CHR 0x83, CHR 0xAA, CHR 0xE3, CHR 0x82, CHR 0xAF, CHR 0xE3, CHR 0x82, CHR 0xA8,
     CHR 0xE3, CHR 0x82, CHR 0xB9, CHR 0xE3, CHR 0x83, CHR 0x88, CHR 0xE3, CHR 0x83, CHR 0x91,
     CHR 0xE3, CHR 0x83, CHR 0xA9, CHR 0xE3, CHR 0x83, CHR 0xA1, CHR 0xE3, CHR 0x83, CHR 0xBC,
     CHR 0xE3, CHR 0x82, CHR 0xBF, CHR 0xE3, CHR 0x81, CHR 0x8C, CHR 0xE4, CHR 0xB8, CHR 0x8D,
     CHR 0xE6, CHR 0xAD, CHR 0xA3, CHR 0xE3, CHR 0x81, CHR 0xA7, CHR 0xE3, CHR 0x81, CHR 0x99]"
  \<comment> \<open>the request parameters are invalid\<close>

definition msg_offset :: string where
  "msg_offset =
    [CHR 0xE3, CHR 0x82, CHR 0xAA, CHR 0xE3, CHR 0x83, CHR 0x95, CHR 0xE3, CHR 0x82, CHR 0xBB,
     CHR 0xE3, CHR 0x83, CHR 0x83, CHR 0xE3, CHR 0x83, CHR 0x88, CHR 0xE3, CHR 0x81, CHR 0xAF,
     CHR 0x30, CHR 0xE4, CHR 0xBB, CHR 0xA5, CHR 0xE4, CHR 0xB8, CHR 0x8A, CHR 0xE3, CHR 0x81,
     CHR 0xA7, CHR 0xE3, CHR 0x81, CHR 0x82, CHR 0xE3, CHR 0x82, CHR 0x8B, CHR 0xE5, CHR 0xBF,
     CHR 0x85, CHR 0xE8, CHR 0xA6, CHR 0x81, CHR 0xE3, CHR 0x81, CHR 0x8C, CHR 0xE3, CHR 0x81,
     CHR 0x82, CHR 0xE3, CHR 0x82, CHR 0x8A, CHR 0xE3, CHR 0x81, CHR 0xBE, CHR 0xE3, CHR 0x81,
     CHR 0x99]"
  \<comment> \<open>offset must be 0 or more\<close>

definition msg_limit :: string where
  "msg_limit =
    [CHR 0xE5, CHR 0x8F, CHR 0x96, CHR 0xE5, CHR 0xBE, CHR 0x97, CHR 0xE4, CHR 0xBB, CHR 0xB6,
     CHR 0xE6, CHR 0x95, CHR 0xB0, CHR 0xE3, CHR 0x81, CHR 0xAF, CHR 0x31, CHR 0xE4, CHR 0xBB,
     CHR 0xA5, CHR 0xE4, CHR 0xB8, CHR 0x8A, CHR 0x31, CHR 0x30, CHR 0x30, CHR 0xE4, CHR 0xBB,
     CHR 0xA5, CHR 0xE4, CHR 0xB8, CHR 0x8B, CHR 0xE3, CHR 0x81, CHR 0xA7, CHR 0xE3, CHR 0x81,
     CHR 0x82, CHR 0xE3, CHR 0x82, CHR 0x8B, CHR 0xE5, CHR 0xBF, CHR 0x85, CHR 0xE8, CHR 0xA6,
     CHR 0x81, CHR 0xE3, CHR 0x81, CHR 0x8C, CHR 0xE3, CHR 0x81, CHR 0x82, CHR 0xE3, CHR 0x82,
     CHR 0x8A, CHR 0xE3, CHR 0x81, CHR 0xBE, CHR 0xE3, CHR 0x81, CHR 0x99]"
  \<comment> \<open>limit must be between 1 and 100\<close>

definition msg_type_id :: string where
  "msg_type_id =
    [CHR 0xE9, CHR 0x85, CHR 0x92, CHR 0xE3, CHR 0x81, CHR 0xAE, CHR 0xE7, CHR 0xA8, CHR 0xAE,
     CHR 0xE9, CHR 0xA1, CHR 0x9E, CHR 0x49, CHR 0x44, CHR 0xE3, CHR 0x81, CHR 0xAF, CHR 0x31,
     CHR 0xE4, CHR 0xBB, CHR 0xA5, CHR 0xE4, CHR 0xB8, CHR 0x8A, CHR 0xE3, CHR 0x81, CHR 0xA7,
     CHR 0xE3, CHR 0x81, CHR 0x82, CHR 0xE3, CHR 0x82, CHR 0x8B, CHR 0xE5, CHR 0xBF, CHR 0x85,
     CHR 0xE8, CHR 0xA6, CHR 0x81, CHR 0xE3, CHR 0x81, CHR 0x8C, CHR 0xE3, CHR 0x81, CHR 0x82,
     CHR 0xE3, CHR 0x82, CHR 0x8A, CHR 0xE3, CHR 0x81, CHR 0xBE, CHR 0xE3, CHR 0x81, CHR 0x99]"
  \<comment> \<open>sake type id must be 1 or more\<close>

definition msg_brewery_id :: string where
  "msg_brewery_id =
    [CHR 0xE9, CHR 0x85, CHR 0x92, CHR 0xE9, CHR 0x80, CHR 0xA0, CHR 0x49, CHR 0x44, CHR 0xE3,
     CHR 0x81, CHR 0xAF, CHR 0x31, CHR 0xE4, CHR 0xBB, CHR 0xA5, CHR 0xE4, CHR 0xB8, CHR 0x8A,
     CHR 0xE3, CHR 0x81, CHR 0xA7, CHR 0xE3, CHR 0x81, CHR 0x82, CHR 0xE3, CHR 0x82, CHR 0x8B,
     CHR 0xE5, CHR 0xBF, CHR 0x85, CHR 0xE8, CHR 0xA6, CHR 0x81, CHR 0xE3, CHR 0x81, CHR 0x8C,
     CHR 0xE3, CHR 0x81, CHR 0x82, CHR 0xE3, CHR 0x82, CHR 0x8A, CHR 0xE3, CHR 0x81, CHR 0xBE,
     CHR 0xE3, CHR 0x81, CHR 0x99]"
  \<comment> \<open>brewery id must be 1 or more\<close>

definition msg_internal :: string where
  "msg_internal =
    [CHR 0xE5, CHR 0x86, CHR 0x85, CHR 0xE9, CHR 0x83, CHR 0xA8, CHR 0xE3, CHR 0x82, CHR 0xA8,
     CHR 0xE3, CHR 0x83, CHR 0xA9, CHR 0xE3, CHR 0x83, CHR 0xBC, CHR 0xE3, CHR 0x81, CHR 0x8C,
     CHR 0xE7, CHR 0x99, CHR 0xBA, CHR 0xE7, CHR 0x94, CHR 0x9F, CHR 0xE3, CHR 0x81, CHR 0x97,
     CHR 0xE3, CHR 0x81, CHR 0xBE, CHR 0xE3, CHR 0x81, CHR 0x97, CHR 0xE3, CHR 0x81, CHR 0x9F]"
  \<comment> \<open>an internal error occurred\<close>

definition msg_count_failed :: string where
  "msg_count_failed =
    [CHR 0xE9, CHR 0x85, CHR 0x92, CHR 0xE3, CHR 0x81, CHR 0xAE, CHR 0xE4, CHR 0xBB, CHR 0xB6,
     CHR 0xE6, CHR 0x95, CHR 0xB0, CHR 0xE5, CHR 0x8F, CHR 0x96, CHR 0xE5, CHR 0xBE, CHR 0x97,
     CHR 0xE3, CHR 0x81, CHR 0xAB, CHR 0xE5, CHR 0xA4, CHR 0xB1, CHR 0xE6, CHR 0x95, CHR 0x97,
     CHR 0xE3, CHR 0x81, CHR 0x97, CHR 0xE3, CHR 0x81, CHR 0xBE, CHR 0xE3, CHR 0x81, CHR 0x97,
     CHR 0xE3, CHR 0x81, CHR 0x9F]"
  \<comment> \<open>failed to count sakes\<close>

definition msg_list_failed :: string where
  "msg_list_failed =
    [CHR 0xE9, CHR 0x85, CHR 0x92, CHR 0xE4, CHR 0xB8, CHR 0x80, CHR 0xE8, CHR 0xA6, CHR 0xA7,
     CHR 0xE3, CHR 0x81, CHR 0xAE, CHR 0xE5, CHR 0x8F, CHR 0x96, CHR 0xE5, CHR 0xBE, CHR 0x97,
     CHR 0xE3, CHR 0x81, CHR 0xAB, CHR 0xE5, CHR 0xA4, CHR 0xB1, CHR 0xE6, CHR 0x95, CHR 0x97,
     CHR 0xE3, CHR 0x81, CHR 0x97, CHR 0xE3, CHR 0x81, CHR 0xBE, CHR 0xE3, CHR 0x81, CHR 0x97,
     CHR 0xE3, CHR 0x81, CHR 0x9F]"
  \<comment> \<open>failed to fetch the sake list\<close>

definition msg_type_not_found :: string where
  "msg_type_not_found =
    [CHR 0xE9, CHR 0x85, CHR 0x92, CHR 0xE3, CHR 0x81, CHR 0xAE, CHR 0xE7, CHR 0xA8, CHR 0xAE,
     CHR 0xE9, CHR 0xA1, CHR 0x9E, CHR 0xE3, CHR 0x81, CHR 0x8C, CHR 0xE8, CHR 0xA6, CHR 0x8B,
     CHR 0xE3, CHR 0x81, CHR 0xA4, CHR 0xE3, CHR 0x81, CHR 0x8B, CHR 0xE3, CHR 0x82, CHR 0x8A,
     CHR 0xE3, CHR 0x81, CHR 0xBE, CHR 0xE3, CHR 0x81, CHR 0x9B, CHR 0xE3, CHR 0x82, CHR 0x93]"
  \<comment> \<open>sake type not found\<close>

definition msg_type_failed :: string where
  "msg_type_failed =
    [CHR 0xE9, CHR 0x85, CHR 0x92, CHR 0xE3, CHR 0x81, CHR 0xAE, CHR 0xE7, CHR 0xA8, CHR 0xAE,
     CHR 0xE9, CHR 0xA1, CHR 0x9E, CHR 0xE5, CHR 0x8F, CHR 0x96, CHR 0xE5, CHR 0xBE, CHR 0x97,
     CHR 0xE3, CHR 0x81, CHR 0xAB, CHR 0xE5, CHR 0xA4, CHR 0xB1, CHR 0xE6, CHR 0x95, CHR 0x97,
     CHR 0xE3, CHR 0x81, CHR 0x97, CHR 0xE3, CHR 0x81, CHR 0xBE, CHR 0xE3, CHR 0x81, CHR 0x97,
     CHR 0xE3, CHR 0x81, CHR 0x9F]"
  \<comment> \<open>failed to fetch the sake type\<close>

definition msg_brewery_not_found :: string where
  "msg_brewery_not_found =
    [CHR 0xE9, CHR 0x85, CHR 0x92, CHR 0xE9, CHR 0x80, CHR 0xA0, CHR 0xE3, CHR 0x81, CHR 0x8C,
     CHR 0xE8, CHR 0xA6, CHR 0x8B, CHR 0xE3, CHR 0x81, CHR 0xA4, CHR 0xE3, CHR 0x81, CHR 0x8B,
     CHR 0xE3, CHR 0x82, CHR 0x8A, CHR 0xE3, CHR 0x81, CHR 0xBE, CHR 0xE3, CHR 0x81, CHR 0x9B,
     CHR 0xE3, CHR 0x82, CHR 0x93]"
  \<comment> \<open>brewery not found\<close>

definition msg_brewery_failed :: string where
  "msg_brewery_failed =
    [CHR 0xE9, CHR 0x85, CHR 0x92, CHR 0xE9, CHR 0x80, CHR 0xA0, CHR 0xE5, CHR 0x8F, CHR 0x96,
     CHR 0xE5, CHR 0xBE, CHR 0x97, CHR 0xE3, CHR 0x81, CHR 0xAB, CHR 0xE5, CHR 0xA4, CHR 0xB1,
     CHR 0xE6, CHR 0x95, CHR 0x97, CHR 0xE3, CHR 0x81, CHR 0x97, CHR 0xE3, CHR 0x81, CHR 0xBE,
     CHR 0xE3, CHR 0x81, CHR 0x97, CHR 0xE3, CHR 0x81, CHR 0x9F]"
  \<comment> \<open>failed to fetch the brewery\<close>

definition msg_styles_failed :: string where
  "msg_styles_failed =
    [CHR 0xE9, CHR 0xA3, CHR 0xB2, CHR 0xE3, CHR 0x81, CHR 0xBF, CHR 0xE6, CHR 0x96, CHR 0xB9,
     CHR 0xE5, CHR 0x8F, CHR 0x96, CHR 0xE5, CHR 0xBE, CHR 0x97, CHR 0xE3, CHR 0x81, CHR 0xAB,
     CHR 0xE5, CHR 0xA4, CHR 0xB1, CHR 0xE6, CHR 0x95, CHR 0x97, CHR 0xE3, CHR 0x81, CHR 0x97,
     CHR 0xE3, CHR 0x81, CHR 0xBE, CHR 0xE3, CHR 0x81, CHR 0x97, CHR 0xE3, CHR 0x81, CHR 0x9F]"
  \<comment> \<open>failed to fetch the drink styles\<close>

subsection \<open>Domain entities (package entity)\<close>

record SakeType =
  SakeType_ID :: int32
  SakeType_Name :: string

record Brewery =
  Brewery_ID :: int32
  Brewery_Name :: string
  Brewery_OriginCountry :: string
  Brewery_OriginRegion :: "string option"
  Brewery_Latitude :: "float64 option"
  Brewery_Longitude :: "float64 option"

record DrinkStyle =
  DrinkStyle_ID :: int32
  DrinkStyle_Name :: string
  DrinkStyle_Description :: "string option"

record Sake =
  Sake_ID :: int32
  Sake_Type :: SakeType
  Sake_Brewery :: Brewery
  Sake_Name :: string
  Sake_ABV :: float32
  Sake_TasteNotes :: string
  Sake_Memo :: "string option"
  Sake_DrinkStyles :: "DrinkStyle list"
  Sake_CreatedAt :: Time
  Sake_UpdatedAt :: Time

record Pagination =
  Pagination_Total :: int64
  Pagination_Offset :: int32
  Pagination_Limit :: int32

text \<open>The zero value \<open>entity.Pagination{}\<close>.\<close>

definition Pagination_zero :: Pagination where
  "Pagination_zero = \<lparr>Pagination_Total = 0, Pagination_Offset = 0, Pagination_Limit = 0\<rparr>"

subsection \<open>The repository port (package domain/repository)\<close>

record ListSakesFilter =
  Filter_TypeID :: "int32 option"
  Filter_BreweryID :: "int32 option"
  Filter_Offset :: int32
  Filter_Limit :: int32

text \<open>The interface \<open>SakeRepository\<close>: its one method \<open>List\<close>, acting on the world.\<close>

type_synonym 'w SakeRepository =
  "ListSakesFilter \<Rightarrow> 'w \<Rightarrow> (Sake list \<times> Pagination \<times> go_error option) \<times> 'w"

subsection \<open>The use case (package usecase)\<close>

record ListSakesInput =
  Input_TypeID :: "int32 option"
  Input_BreweryID :: "int32 option"
  Input_Offset :: int32
  Input_Limit :: int32

record ListSakesOutput =
  Output_Sakes :: "Sake list"
  Output_Pagination :: Pagination

type_synonym 'w ListSakesUsecaseInterface =
  "ListSakesInput \<Rightarrow> 'w \<Rightarrow> (ListSakesOutput option \<times> go_error option) \<times> 'w"

text \<open>
  \<open>Execute\<close>: the two clamps on the (by-value) input, the call of the repository with the
  filter built from it, and the two returns.
\<close>

definition Execute :: "'w SakeRepository \<Rightarrow> 'w ListSakesUsecaseInterface" where
  "Execute sakeRepo input w =
     (let input1 = (if sint (Input_Offset input) < 0 then input\<lparr>Input_Offset := 0\<rparr> else input);
          input2 = (if sint (Input_Limit input1) < 1 \<or> sint (Input_Limit input1) > 100
                    then input1\<lparr>Input_Limit := 20\<rparr> else input1);
          ((sakes, pagination, err), w') =
             sakeRepo \<lparr>Filter_TypeID = Input_TypeID input2,
                       Filter_BreweryID = Input_BreweryID input2,
                       Filter_Offset = Input_Offset input2,
                       Filter_Limit = Input_Limit input2\<rparr> w
      in case err of
           Some e \<Rightarrow> ((None, Some e), w')
         | None \<Rightarrow> ((Some \<lparr>Output_Sakes = sakes, Output_Pagination = pagination\<rparr>, None), w'))"

text \<open>
  The substitute repository of the use case's tests (\<open>MockSakeRepository\<close>): it returns a
  canned result and records the filter it was called with; the world is the list of the
  recorded calls.
\<close>

definition MockSakeRepository ::
  "(Sake list \<times> Pagination \<times> go_error option) \<Rightarrow> (ListSakesFilter list) SakeRepository" where
  "MockSakeRepository canned flt calls = (canned, calls @ [flt])"


subsection \<open>Rounding to a binary floating-point format\<close>

text \<open>Round to the nearest integer, a tie going to the even one.\<close>

definition round_half_even :: "rat \<Rightarrow> int" where
  "round_half_even x =
     (let f = \<lfloor>x\<rfloor>; d = x - of_int f
      in if d < 1 / 2 then f else if 1 / 2 < d then f + 1 else if even f then f else f + 1)"

text \<open>For \<open>0 < x\<close>, the exponent \<open>e\<close> with \<open>2 powi e \<le> x < 2 powi (e + 1)\<close>.\<close>

definition ilog2 :: "rat \<Rightarrow> int" where
  "ilog2 x =
     (let (a, b) = quotient_of x; d = bitlen a - bitlen b
      in if x < 2 powi d then d - 1 else d)"

text \<open>
  IEEE 754 round-to-nearest-even into the format with \<open>p\<close> significant bits and normal
  exponents \<open>emin .. emax\<close>: the spacing of the format at \<open>x\<close> is \<open>2 powi q\<close> (that of the
  subnormals below \<open>2 powi emin\<close>), and a rounded magnitude of \<open>2 powi (emax + 1)\<close> or more
  is an infinity.
\<close>

definition round_ieee :: "nat \<Rightarrow> int \<Rightarrow> int \<Rightarrow> rat \<Rightarrow> ieee" where
  "round_ieee p emin emax x =
     (if x = 0 then Fin 0
      else let q = max (ilog2 \<bar>x\<bar>) emin - (int p - 1);
               y = of_int (round_half_even (\<bar>x\<bar> / 2 powi q)) * 2 powi q
           in if 2 powi (emax + 1) \<le> y then (if 0 < x then PosInf else NegInf)
              else Fin (sgn x * y))"

definition round_float64 :: "rat \<Rightarrow> float64" where
  "round_float64 = round_ieee 53 (- 1022) 1023"

definition round_float32 :: "rat \<Rightarrow> float32" where
  "round_float32 = round_ieee 24 (- 126) 127"

text \<open>The Go conversion \<open>float32(f)\<close> of a \<open>float64\<close>.\<close>

fun float32_of_float64 :: "float64 \<Rightarrow> float32" where
  "float32_of_float64 (Fin x) = round_float32 x"
| "float32_of_float64 PosInf = PosInf"
| "float32_of_float64 NegInf = NegInf"
| "float32_of_float64 NaN = NaN"

subsection \<open>The driver's types (package pgtype) and the generated models (package sqlc)\<close>

datatype InfinityModifier = Infinity | Finite | NegativeInfinity

text \<open>\<open>pgtype.Numeric\<close>: the number \<open>Int * 10 ^ Exp\<close>, \<open>Int\<close> a pointer to a big integer.\<close>

record Numeric =
  Numeric_Int :: "int option"
  Numeric_Exp :: int32
  Numeric_NaN :: bool
  Numeric_InfinityModifier :: InfinityModifier
  Numeric_Valid :: bool

record Float8 =
  Float8_Float64 :: float64
  Float8_Valid :: bool

definition Float8_zero :: Float8 where
  "Float8_zero = \<lparr>Float8_Float64 = Fin 0, Float8_Valid = False\<rparr>"

definition Numeric_value :: "Numeric \<Rightarrow> rat" where
  "Numeric_value n =
     (case Numeric_Int n of None \<Rightarrow> 0 | Some i \<Rightarrow> of_int i) * 10 powi sint (Numeric_Exp n)"

text \<open>
  \<open>Numeric.Float64Value\<close> of the driver (pgx v5; library code, not part of the repository):
  an invalid numeric gives the zero \<open>Float8\<close>, NaN and the infinities are passed on, and a
  finite one is printed as \<open>Int\<close>, \<open>e\<close>, \<open>Exp\<close> and parsed by \<open>strconv.ParseFloat\<close>, which
  rounds to the nearest \<open>float64\<close> and reports a value out of range as an error.
\<close>

definition Float64Value :: "Numeric \<Rightarrow> Float8 \<times> go_error option" where
  "Float64Value n =
     (if \<not> Numeric_Valid n then (Float8_zero, None)
      else if Numeric_NaN n then (\<lparr>Float8_Float64 = NaN, Float8_Valid = True\<rparr>, None)
      else if Numeric_InfinityModifier n = Infinity
        then (\<lparr>Float8_Float64 = PosInf, Float8_Valid = True\<rparr>, None)
      else if Numeric_InfinityModifier n = NegativeInfinity
        then (\<lparr>Float8_Float64 = NegInf, Float8_Valid = True\<rparr>, None)
      else case round_float64 (Numeric_value n) of
             Fin x \<Rightarrow> (\<lparr>Float8_Float64 = Fin x, Float8_Valid = True\<rparr>, None)
           | _ \<Rightarrow> (Float8_zero, Some (ErrorString ''value out of range'')))"

text \<open>A PostGIS \<open>GEOMETRY(Point, 4326)\<close> value: longitude and latitude.\<close>

datatype geometry = Point rat rat

record sqlc_Sake =
  sqlc_Sake_ID :: int32
  sqlc_Sake_TypeID :: int32
  sqlc_Sake_BreweryID :: int32
  sqlc_Sake_Name :: string
  sqlc_Sake_Abv :: Numeric
  sqlc_Sake_TasteNotes :: string
  sqlc_Sake_Memo :: "string option"
  sqlc_Sake_CreatedAt :: Time
  sqlc_Sake_UpdatedAt :: Time

record sqlc_SakeType =
  sqlc_SakeType_ID :: int32
  sqlc_SakeType_Name :: string
  sqlc_SakeType_CreatedAt :: Time
  sqlc_SakeType_UpdatedAt :: Time

record sqlc_Brewery =
  sqlc_Brewery_ID :: int32
  sqlc_Brewery_Name :: string
  sqlc_Brewery_OriginCountry :: string
  sqlc_Brewery_OriginRegion :: "string option"
  sqlc_Brewery_Position :: "geometry option"
  sqlc_Brewery_CreatedAt :: Time
  sqlc_Brewery_UpdatedAt :: Time

record sqlc_DrinkStyle =
  sqlc_DrinkStyle_ID :: int32
  sqlc_DrinkStyle_Name :: string
  sqlc_DrinkStyle_Description :: "string option"
  sqlc_DrinkStyle_CreatedAt :: Time
  sqlc_DrinkStyle_UpdatedAt :: Time

record sqlc_CountSakesParams =
  CountSakesParams_TypeID :: "int32 option"
  CountSakesParams_BreweryID :: "int32 option"

record sqlc_ListSakesParams =
  ListSakesParams_Limit :: int32
  ListSakesParams_Offset :: int32
  ListSakesParams_TypeID :: "int32 option"
  ListSakesParams_BreweryID :: "int32 option"

text \<open>
  \<open>sqlc.Queries\<close>, the generated query methods the adapter calls. Each returns a value and
  an error, and acts on the world.
\<close>

record 'w Queries =
  Queries_CountSakes :: "sqlc_CountSakesParams \<Rightarrow> 'w \<Rightarrow> (int64 \<times> go_error option) \<times> 'w"
  Queries_ListSakes :: "sqlc_ListSakesParams \<Rightarrow> 'w \<Rightarrow> (sqlc_Sake list \<times> go_error option) \<times> 'w"
  Queries_GetSakeType :: "int32 \<Rightarrow> 'w \<Rightarrow> (sqlc_SakeType \<times> go_error option) \<times> 'w"
  Queries_GetBrewery :: "int32 \<Rightarrow> 'w \<Rightarrow> (sqlc_Brewery \<times> go_error option) \<times> 'w"
  Queries_GetDrinkStylesBySakeID ::
    "int32 \<Rightarrow> 'w \<Rightarrow> (sqlc_DrinkStyle list \<times> go_error option) \<times> 'w"

subsection \<open>The repository adapter\<close>

text \<open>
  \<open>extractCoordinates\<close> takes an \<open>interface{}\<close>, that is a value of any type, and returns
  two nil pointers.
\<close>

definition extractCoordinates :: "'a \<Rightarrow> float64 option \<times> float64 option" where
  "extractCoordinates geomData = (None, None)"

definition convertNumericToFloat32 :: "Numeric \<Rightarrow> float32" where
  "convertNumericToFloat32 n =
     (let (f64, err) = Float64Value n
      in if err \<noteq> None \<or> \<not> Float8_Valid f64 then Fin 0
         else float32_of_float64 (Float8_Float64 f64))"

text \<open>
  \<open>toSakeEntity\<close> returns \<open>(nil, err)\<close> or \<open>(&sake, nil)\<close>: the error on the left, the
  entity on the right.
\<close>

definition toSakeEntity :: "'w Queries \<Rightarrow> sqlc_Sake \<Rightarrow> 'w \<Rightarrow> (go_error + Sake) \<times> 'w" where
  "toSakeEntity queries row w =
     (let ((sakeType, err), w1) = Queries_GetSakeType queries (sqlc_Sake_TypeID row) w
      in case err of
           Some e \<Rightarrow>
             (if errors_Is_ErrNoRows e then (Inl (NotFoundError msg_type_not_found), w1)
              else (Inl (DatabaseError msg_type_failed e), w1))
         | None \<Rightarrow>
      (let ((brewery, err), w2) = Queries_GetBrewery queries (sqlc_Sake_BreweryID row) w1
       in case err of
            Some e \<Rightarrow>
              (if errors_Is_ErrNoRows e then (Inl (NotFoundError msg_brewery_not_found), w2)
               else (Inl (DatabaseError msg_brewery_failed e), w2))
          | None \<Rightarrow>
       (let ((drinkStyleRows, err), w3) =
              Queries_GetDrinkStylesBySakeID queries (sqlc_Sake_ID row) w2
        in case err of
             Some e \<Rightarrow> (Inl (DatabaseError msg_styles_failed e), w3)
           | None \<Rightarrow>
        (let drinkStyles =
               map (\<lambda>ds. \<lparr>DrinkStyle_ID = sqlc_DrinkStyle_ID ds,
                             DrinkStyle_Name = sqlc_DrinkStyle_Name ds,
                             DrinkStyle_Description = sqlc_DrinkStyle_Description ds\<rparr>)
                 drinkStyleRows;
             (latitude, longitude) = extractCoordinates (sqlc_Brewery_Position brewery)
         in (Inr \<lparr>Sake_ID = sqlc_Sake_ID row,
                   Sake_Type = \<lparr>SakeType_ID = sqlc_SakeType_ID sakeType,
                                 SakeType_Name = sqlc_SakeType_Name sakeType\<rparr>,
                   Sake_Brewery =
                     \<lparr>Brewery_ID = sqlc_Brewery_ID brewery,
                      Brewery_Name = sqlc_Brewery_Name brewery,
                      Brewery_OriginCountry = sqlc_Brewery_OriginCountry brewery,
                      Brewery_OriginRegion = sqlc_Brewery_OriginRegion brewery,
                      Brewery_Latitude = latitude,
                      Brewery_Longitude = longitude\<rparr>,
                   Sake_Name = sqlc_Sake_Name row,
                   Sake_ABV = convertNumericToFloat32 (sqlc_Sake_Abv row),
                   Sake_TasteNotes = sqlc_Sake_TasteNotes row,
                   Sake_Memo = sqlc_Sake_Memo row,
                   Sake_DrinkStyles = drinkStyles,
                   Sake_CreatedAt = sqlc_Sake_CreatedAt row,
                   Sake_UpdatedAt = sqlc_Sake_UpdatedAt row\<rparr>, w3)))))"

text \<open>
  The conversion loop of \<open>List\<close> over the rows of the page: \<open>sakes\<close> is the slice built so
  far; the first row that fails ends the loop with its error.
\<close>

fun List_loop :: "'w Queries \<Rightarrow> sqlc_Sake list \<Rightarrow> Sake list \<Rightarrow> 'w \<Rightarrow> (go_error + Sake list) \<times> 'w"
  where
  "List_loop queries [] sakes w = (Inr sakes, w)"
| "List_loop queries (row # sakeRows) sakes w =
     (case toSakeEntity queries row w of
        (Inl err, w') \<Rightarrow> (Inl err, w')
      | (Inr sake, w') \<Rightarrow> List_loop queries sakeRows (sakes @ [sake]) w')"

text \<open>The method \<open>List\<close> of \<open>sakeRepositoryImpl\<close>.\<close>

definition sakeRepositoryImpl_List :: "'w Queries \<Rightarrow> 'w SakeRepository" where
  "sakeRepositoryImpl_List queries flt w =
     (let countParams = \<lparr>CountSakesParams_TypeID = Filter_TypeID flt,
                          CountSakesParams_BreweryID = Filter_BreweryID flt\<rparr>;
          ((total, err), w1) = Queries_CountSakes queries countParams w
      in case err of
           Some e \<Rightarrow> (([], Pagination_zero, Some (DatabaseError msg_count_failed e)), w1)
         | None \<Rightarrow>
      (let listParams = \<lparr>ListSakesParams_Limit = Filter_Limit flt,
                          ListSakesParams_Offset = Filter_Offset flt,
                          ListSakesParams_TypeID = Filter_TypeID flt,
                          ListSakesParams_BreweryID = Filter_BreweryID flt\<rparr>;
           ((sakeRows, err), w2) = Queries_ListSakes queries listParams w1
       in case err of
            Some e \<Rightarrow> (([], Pagination_zero, Some (DatabaseError msg_list_failed e)), w2)
          | None \<Rightarrow>
       (case List_loop queries sakeRows [] w2 of
          (Inl e, w3) \<Rightarrow> (([], Pagination_zero, Some e), w3)
        | (Inr sakes, w3) \<Rightarrow>
            ((sakes,
              \<lparr>Pagination_Total = total,
               Pagination_Offset = Filter_Offset flt,
               Pagination_Limit = Filter_Limit flt\<rparr>,
              None), w3))))"

subsection \<open>The SQL of \<open>db/queries/sakes.sql\<close> over the tables of the migration\<close>

text \<open>
  SQL's three-valued logic: a comparison with NULL is NULL, and a row passes a
  \<open>WHERE\<close> clause only when the clause is TRUE.
\<close>

datatype sql_bool = sql_TRUE | sql_FALSE | sql_NULL

fun sql_OR :: "sql_bool \<Rightarrow> sql_bool \<Rightarrow> sql_bool" where
  "sql_OR sql_TRUE b = sql_TRUE"
| "sql_OR a sql_TRUE = sql_TRUE"
| "sql_OR sql_FALSE sql_FALSE = sql_FALSE"
| "sql_OR a b = sql_NULL"

fun sql_AND :: "sql_bool \<Rightarrow> sql_bool \<Rightarrow> sql_bool" where
  "sql_AND sql_FALSE b = sql_FALSE"
| "sql_AND a sql_FALSE = sql_FALSE"
| "sql_AND sql_TRUE sql_TRUE = sql_TRUE"
| "sql_AND a b = sql_NULL"

text \<open>A nullable value is an option, \<open>None\<close> being NULL.\<close>

definition sql_IS_NULL :: "'a option \<Rightarrow> sql_bool" where
  "sql_IS_NULL a = (case a of None \<Rightarrow> sql_TRUE | Some x \<Rightarrow> sql_FALSE)"

definition sql_EQ :: "'a option \<Rightarrow> 'a option \<Rightarrow> sql_bool" where
  "sql_EQ a b =
     (case (a, b) of
        (Some x, Some y) \<Rightarrow> if x = y then sql_TRUE else sql_FALSE
      | _ \<Rightarrow> sql_NULL)"

text \<open>
  The tables. The generated models have the columns of their tables, so a table is a
  list of them; every column but \<open>origin_region\<close>, \<open>position\<close>, \<open>memo\<close> and \<open>description\<close>
  is \<open>NOT NULL\<close>.
\<close>

record sake_drink_styles_row =
  sds_sake_id :: int32
  sds_drink_style_id :: int32

record database =
  db_sake_types :: "sqlc_SakeType list"
  db_breweries :: "sqlc_Brewery list"
  db_sakes :: "sqlc_Sake list"
  db_drink_styles :: "sqlc_DrinkStyle list"
  db_sake_drink_styles :: "sake_drink_styles_row list"

text \<open>
  The \<open>WHERE\<close> clause of \<open>ListSakes\<close> (lines 14 and 15), \<open>sqlc.narg\<close> being a nullable
  parameter, and the one of \<open>CountSakes\<close> (lines 23 and 24).
\<close>

definition ListSakes_WHERE :: "sqlc_ListSakesParams \<Rightarrow> sqlc_Sake \<Rightarrow> sql_bool" where
  "ListSakes_WHERE arg s =
     sql_AND
       (sql_OR (sql_IS_NULL (ListSakesParams_TypeID arg))
               (sql_EQ (Some (sqlc_Sake_TypeID s)) (ListSakesParams_TypeID arg)))
       (sql_OR (sql_IS_NULL (ListSakesParams_BreweryID arg))
               (sql_EQ (Some (sqlc_Sake_BreweryID s)) (ListSakesParams_BreweryID arg)))"

definition CountSakes_WHERE :: "sqlc_CountSakesParams \<Rightarrow> sqlc_Sake \<Rightarrow> sql_bool" where
  "CountSakes_WHERE arg s =
     sql_AND
       (sql_OR (sql_IS_NULL (CountSakesParams_TypeID arg))
               (sql_EQ (Some (sqlc_Sake_TypeID s)) (CountSakesParams_TypeID arg)))
       (sql_OR (sql_IS_NULL (CountSakesParams_BreweryID arg))
               (sql_EQ (Some (sqlc_Sake_BreweryID s)) (CountSakesParams_BreweryID arg)))"

text \<open>
  \<open>ListSakes :many\<close>. \<open>ORDER BY s.created_at DESC\<close> leaves the order of rows with equal
  timestamps open; the stable sort is one of the orders it allows. PostgreSQL rejects a
  negative \<open>LIMIT\<close> or \<open>OFFSET\<close>.
\<close>

definition ListSakes_sql :: "database \<Rightarrow> sqlc_ListSakesParams \<Rightarrow> sqlc_Sake list \<times> go_error option"
  where
  "ListSakes_sql db arg =
     (if sint (ListSakesParams_Limit arg) < 0
        then ([], Some (ErrorString ''LIMIT must not be negative''))
      else if sint (ListSakesParams_Offset arg) < 0
        then ([], Some (ErrorString ''OFFSET must not be negative''))
      else (take (nat (sint (ListSakesParams_Limit arg)))
             (drop (nat (sint (ListSakesParams_Offset arg)))
               (sort_key (\<lambda>s. - sqlc_Sake_CreatedAt s)
                 (filter (\<lambda>s. ListSakes_WHERE arg s = sql_TRUE) (db_sakes db)))), None))"

text \<open>\<open>CountSakes :one\<close>: \<open>COUNT( * )\<close> is a \<open>BIGINT\<close>.\<close>

definition CountSakes_sql :: "database \<Rightarrow> sqlc_CountSakesParams \<Rightarrow> int64 \<times> go_error option" where
  "CountSakes_sql db arg =
     (of_nat (length (filter (\<lambda>s. CountSakes_WHERE arg s = sql_TRUE) (db_sakes db))), None)"

text \<open>
  A \<open>:one\<close> query returns \<open>pgx.ErrNoRows\<close> and the zero model when no row matches, and the
  first row otherwise.
\<close>

definition sqlc_SakeType_zero :: sqlc_SakeType where
  "sqlc_SakeType_zero =
     \<lparr>sqlc_SakeType_ID = 0, sqlc_SakeType_Name = [], sqlc_SakeType_CreatedAt = 0,
      sqlc_SakeType_UpdatedAt = 0\<rparr>"

definition sqlc_Brewery_zero :: sqlc_Brewery where
  "sqlc_Brewery_zero =
     \<lparr>sqlc_Brewery_ID = 0, sqlc_Brewery_Name = [], sqlc_Brewery_OriginCountry = [],
      sqlc_Brewery_OriginRegion = None, sqlc_Brewery_Position = None,
      sqlc_Brewery_CreatedAt = 0, sqlc_Brewery_UpdatedAt = 0\<rparr>"

definition GetSakeType_sql :: "database \<Rightarrow> int32 \<Rightarrow> sqlc_SakeType \<times> go_error option" where
  "GetSakeType_sql db id' =
     (case filter (\<lambda>t. sqlc_SakeType_ID t = id') (db_sake_types db) of
        [] \<Rightarrow> (sqlc_SakeType_zero, Some ErrNoRows)
      | t # ts \<Rightarrow> (t, None))"

definition GetBrewery_sql :: "database \<Rightarrow> int32 \<Rightarrow> sqlc_Brewery \<times> go_error option" where
  "GetBrewery_sql db id' =
     (case filter (\<lambda>b. sqlc_Brewery_ID b = id') (db_breweries db) of
        [] \<Rightarrow> (sqlc_Brewery_zero, Some ErrNoRows)
      | b # bs \<Rightarrow> (b, None))"

text \<open>
  \<open>GetDrinkStylesBySakeID :many\<close>: the join of \<open>drink_styles\<close> with \<open>sake_drink_styles\<close>,
  ordered by the (signed) id of the drink style. No row is an empty result, not an error.
\<close>

definition GetDrinkStylesBySakeID_sql ::
  "database \<Rightarrow> int32 \<Rightarrow> sqlc_DrinkStyle list \<times> go_error option" where
  "GetDrinkStylesBySakeID_sql db id' =
     (sort_key (\<lambda>ds. sint (sqlc_DrinkStyle_ID ds))
        (concat (map (\<lambda>ds. map (\<lambda>sds. ds)
                   (filter (\<lambda>sds. sqlc_DrinkStyle_ID ds = sds_drink_style_id sds \<and>
                                   sds_sake_id sds = id')
                      (db_sake_drink_styles db)))
                 (db_drink_styles db))), None)"


text \<open>The generated queries run against a database that nobody else writes to.\<close>

definition sql_Queries :: "database Queries" where
  "sql_Queries =
     \<lparr>Queries_CountSakes = (\<lambda>arg db. (CountSakes_sql db arg, db)),
      Queries_ListSakes = (\<lambda>arg db. (ListSakes_sql db arg, db)),
      Queries_GetSakeType = (\<lambda>id' db. (GetSakeType_sql db id', db)),
      Queries_GetBrewery = (\<lambda>id' db. (GetBrewery_sql db id', db)),
      Queries_GetDrinkStylesBySakeID = (\<lambda>id' db. (GetDrinkStylesBySakeID_sql db id', db))\<rparr>"

subsection \<open>The presentation adapter\<close>

text \<open>
  The types of the generated OpenAPI bindings (package \<open>generated\<close>), with the fields the
  handler and its tests use.
\<close>

record generated_ListSakesParams =
  Params_TypeId :: "int32 option"
  Params_BreweryId :: "int32 option"
  Params_Offset :: "int32 option"
  Params_Limit :: "int32 option"

record generated_SakeType =
  gen_SakeType_Id :: int32
  gen_SakeType_Name :: string

record generated_Brewery =
  gen_Brewery_Id :: int32
  gen_Brewery_Name :: string
  gen_Brewery_OriginCountry :: string
  gen_Brewery_OriginRegion :: "string option"
  gen_Brewery_Latitude :: "float64 option"
  gen_Brewery_Longitude :: "float64 option"

record generated_DrinkStyle =
  gen_DrinkStyle_Id :: int32
  gen_DrinkStyle_Name :: string
  gen_DrinkStyle_Description :: "string option"

record generated_Sake =
  gen_Sake_Id :: int32
  gen_Sake_Type :: generated_SakeType
  gen_Sake_Brewery :: generated_Brewery
  gen_Sake_Name :: string
  gen_Sake_Abv :: float32
  gen_Sake_TasteNotes :: string
  gen_Sake_Memo :: "string option"
  gen_Sake_DrinkStyles :: "generated_DrinkStyle list"
  gen_Sake_CreatedAt :: Time
  gen_Sake_UpdatedAt :: Time

record generated_SakeListMeta =
  Meta_Total :: int64
  Meta_Offset :: int32
  Meta_Limit :: int32

record generated_APIError =
  APIError_Code :: string
  APIError_Message :: string

record generated_ListSakesResponse =
  Response_Data :: "generated_Sake list option"
  Response_Meta :: "generated_SakeListMeta option"
  Response_Errors :: "generated_APIError list option"

record generated_ErrorResponse =
  ErrorResponse_Data :: "unit option"
  ErrorResponse_Errors :: "generated_APIError list option"

text \<open>
  What a run of the handler leaves in the \<open>gin.Context\<close>: the status and body written by
  \<open>c.JSON\<close>, or a panic (a nil pointer dereference).
\<close>

datatype response_body =
    ListSakesResponse generated_ListSakesResponse
  | ErrorResponse generated_ErrorResponse

datatype handler_result = JSON int response_body | Panic

text \<open>
  \<open>validate.Var\<close> of go-playground/validator (library code) on a signed integer: the tag
  \<open>min=n\<close> asks for \<open>n \<le> v\<close>, \<open>max=n\<close> for \<open>v \<le> n\<close>, a comma joins tags, and the result is
  nil exactly when every tag holds.
\<close>

datatype validator_tag = Tag_min int | Tag_max int

fun tag_holds :: "int32 \<Rightarrow> validator_tag \<Rightarrow> bool" where
  "tag_holds v (Tag_min n) = (n \<le> sint v)"
| "tag_holds v (Tag_max n) = (sint v \<le> n)"

definition validate_Var :: "int32 \<Rightarrow> validator_tag list \<Rightarrow> go_error option" where
  "validate_Var v tags =
     (if list_all (tag_holds v) tags then None else Some (ErrorString ''validation failed''))"

definition validateListSakesParams :: "generated_ListSakesParams \<Rightarrow> go_error option" where
  "validateListSakesParams params =
     (let verr0 = NewValidationError msg_invalid_params;
          verr1 = (case Params_Offset params of
                     None \<Rightarrow> verr0
                   | Some v \<Rightarrow>
                       if validate_Var v [Tag_min 0] \<noteq> None
                       then AddField verr0 ''offset'' msg_offset else verr0);
          verr2 = (case Params_Limit params of
                     None \<Rightarrow> verr1
                   | Some v \<Rightarrow>
                       if validate_Var v [Tag_min 1, Tag_max 100] \<noteq> None
                       then AddField verr1 ''limit'' msg_limit else verr1);
          verr3 = (case Params_TypeId params of
                     None \<Rightarrow> verr2
                   | Some v \<Rightarrow>
                       if validate_Var v [Tag_min 1] \<noteq> None
                       then AddField verr2 ''type_id'' msg_type_id else verr2);
          verr4 = (case Params_BreweryId params of
                     None \<Rightarrow> verr3
                   | Some v \<Rightarrow>
                       if validate_Var v [Tag_min 1] \<noteq> None
                       then AddField verr3 ''brewery_id'' msg_brewery_id else verr3)
      in if HasErrors verr4 then Some verr4 else None)"

definition toSakeResponse :: "Sake \<Rightarrow> generated_Sake" where
  "toSakeResponse sake =
     (let drinkStyles =
            map (\<lambda>ds. \<lparr>gen_DrinkStyle_Id = DrinkStyle_ID ds,
                          gen_DrinkStyle_Name = DrinkStyle_Name ds,
                          gen_DrinkStyle_Description = DrinkStyle_Description ds\<rparr>)
              (Sake_DrinkStyles sake)
      in \<lparr>gen_Sake_Id = Sake_ID sake,
          gen_Sake_Type = \<lparr>gen_SakeType_Id = SakeType_ID (Sake_Type sake),
                            gen_SakeType_Name = SakeType_Name (Sake_Type sake)\<rparr>,
          gen_Sake_Brewery =
            \<lparr>gen_Brewery_Id = Brewery_ID (Sake_Brewery sake),
             gen_Brewery_Name = Brewery_Name (Sake_Brewery sake),
             gen_Brewery_OriginCountry = Brewery_OriginCountry (Sake_Brewery sake),
             gen_Brewery_OriginRegion = Brewery_OriginRegion (Sake_Brewery sake),
             gen_Brewery_Latitude = Brewery_Latitude (Sake_Brewery sake),
             gen_Brewery_Longitude = Brewery_Longitude (Sake_Brewery sake)\<rparr>,
          gen_Sake_Name = Sake_Name sake,
          gen_Sake_Abv = Sake_ABV sake,
          gen_Sake_TasteNotes = Sake_TasteNotes sake,
          gen_Sake_Memo = Sake_Memo sake,
          gen_Sake_DrinkStyles = drinkStyles,
          gen_Sake_CreatedAt = Sake_CreatedAt sake,
          gen_Sake_UpdatedAt = Sake_UpdatedAt sake\<rparr>)"

definition toListSakesResponse :: "ListSakesOutput \<Rightarrow> generated_ListSakesResponse" where
  "toListSakesResponse output =
     (let sakes = map toSakeResponse (Output_Sakes output);
          meta = \<lparr>Meta_Total = Pagination_Total (Output_Pagination output),
                  Meta_Offset = Pagination_Offset (Output_Pagination output),
                  Meta_Limit = Pagination_Limit (Output_Pagination output)\<rparr>
      in \<lparr>Response_Data = Some sakes, Response_Meta = Some meta, Response_Errors = None\<rparr>)"

text \<open>
  \<open>handleError\<close>: a \<open>*ValidationError\<close> gives one \<open>APIError\<close> for each entry of \<open>Fields\<close>; any
  other error with an \<open>*AppError\<close> in its chain gives that one's code, message and
  status; the rest is the internal error.
\<close>

definition handleError :: "go_error \<Rightarrow> handler_result" where
  "handleError err =
     (case err of
        ValidationError code message status e flds \<Rightarrow>
          JSON status
            (ErrorResponse
              \<lparr>ErrorResponse_Data = None,
               ErrorResponse_Errors =
                 Some (map (\<lambda>(field, msg).
                              \<lparr>APIError_Code = code, APIError_Message = field @ '': '' @ msg\<rparr>)
                         flds)\<rparr>)
      | _ \<Rightarrow>
          (case As err of
             Some appErr \<Rightarrow>
               JSON (Status appErr)
                 (ErrorResponse
                   \<lparr>ErrorResponse_Data = None,
                    ErrorResponse_Errors =
                      Some [\<lparr>APIError_Code = Code appErr,
                             APIError_Message = Message appErr\<rparr>]\<rparr>)
           | None \<Rightarrow>
               JSON StatusInternalServerError
                 (ErrorResponse
                   \<lparr>ErrorResponse_Data = None,
                    ErrorResponse_Errors =
                      Some [\<lparr>APIError_Code = ErrCodeInternalError,
                             APIError_Message = msg_internal\<rparr>]\<rparr>)))"

text \<open>The handler \<open>ListSakes\<close> of \<open>SakeServerImpl\<close> (\<open>GET /sakes\<close>).\<close>

definition ListSakes ::
  "'w ListSakesUsecaseInterface \<Rightarrow> generated_ListSakesParams \<Rightarrow> 'w \<Rightarrow> handler_result \<times> 'w" where
  "ListSakes listSakesUsecase params w =
     (case validateListSakesParams params of
        Some err \<Rightarrow> (handleError err, w)
      | None \<Rightarrow>
          (let offset = (case Params_Offset params of None \<Rightarrow> 0 | Some v \<Rightarrow> v);
               limit = (case Params_Limit params of None \<Rightarrow> 20 | Some v \<Rightarrow> v);
               ((output, err), w') =
                  listSakesUsecase \<lparr>Input_TypeID = Params_TypeId params,
                                    Input_BreweryID = Params_BreweryId params,
                                    Input_Offset = offset,
                                    Input_Limit = limit\<rparr> w
           in case err of
                Some e \<Rightarrow> (handleError e, w')
              | None \<Rightarrow>
                  (case output of
                     None \<Rightarrow> (Panic, w')
                   | Some out \<Rightarrow>
                       (JSON StatusOK (ListSakesResponse (toListSakesResponse out)), w'))))"

text \<open>
  The substitute use case of the handler's tests (\<open>MockListSakesUsecase\<close>): a canned result,
  and the world is the list of the inputs it was called with.
\<close>

definition MockListSakesUsecase ::
  "(ListSakesOutput option \<times> go_error option) \<Rightarrow> (ListSakesInput list) ListSakesUsecaseInterface"
  where
  "MockListSakesUsecase canned input calls = (canned, calls @ [input])"

subsection \<open>Sample data\<close>

text \<open>
  A small database in the shape of the repository's seed and test data: two types, two
  breweries (one with a region and a position), two drink styles and three sakes.
\<close>

definition sample_abv :: "int \<Rightarrow> Numeric" where
  "sample_abv hundredths =
     \<lparr>Numeric_Int = Some hundredths, Numeric_Exp = - 2, Numeric_NaN = False,
      Numeric_InfinityModifier = Finite, Numeric_Valid = True\<rparr>"

definition sample_sake :: "int32 \<Rightarrow> int32 \<Rightarrow> int32 \<Rightarrow> string \<Rightarrow> int \<Rightarrow> string option \<Rightarrow> Time \<Rightarrow> sqlc_Sake"
  where
  "sample_sake i t b name' hundredths memo created =
     \<lparr>sqlc_Sake_ID = i, sqlc_Sake_TypeID = t, sqlc_Sake_BreweryID = b, sqlc_Sake_Name = name',
      sqlc_Sake_Abv = sample_abv hundredths, sqlc_Sake_TasteNotes = ''fruity'',
      sqlc_Sake_Memo = memo, sqlc_Sake_CreatedAt = created, sqlc_Sake_UpdatedAt = created\<rparr>"

definition sample_db :: database where
  "sample_db =
     \<lparr>db_sake_types =
        [\<lparr>sqlc_SakeType_ID = 1, sqlc_SakeType_Name = ''junmai daiginjo'',
          sqlc_SakeType_CreatedAt = 0, sqlc_SakeType_UpdatedAt = 0\<rparr>,
         \<lparr>sqlc_SakeType_ID = 2, sqlc_SakeType_Name = ''honjozo'',
          sqlc_SakeType_CreatedAt = 0, sqlc_SakeType_UpdatedAt = 0\<rparr>],
      db_breweries =
        [\<lparr>sqlc_Brewery_ID = 1, sqlc_Brewery_Name = ''Asahi Shuzo'',
          sqlc_Brewery_OriginCountry = ''Japan'', sqlc_Brewery_OriginRegion = Some ''Yamaguchi'',
          sqlc_Brewery_Position = Some (Point 132 34), sqlc_Brewery_CreatedAt = 0,
          sqlc_Brewery_UpdatedAt = 0\<rparr>,
         \<lparr>sqlc_Brewery_ID = 2, sqlc_Brewery_Name = ''Hakkaisan'',
          sqlc_Brewery_OriginCountry = ''Japan'', sqlc_Brewery_OriginRegion = None,
          sqlc_Brewery_Position = None, sqlc_Brewery_CreatedAt = 0,
          sqlc_Brewery_UpdatedAt = 0\<rparr>],
      db_sakes =
        [sample_sake 1 1 1 ''Dassai 50'' 1600 (Some ''memo'') 10,
         sample_sake 2 1 2 ''Hakkaisan'' 1550 None 20,
         sample_sake 3 2 2 ''Tokubetsu'' 1505 None 30],
      db_drink_styles =
        [\<lparr>sqlc_DrinkStyle_ID = 1, sqlc_DrinkStyle_Name = ''reishu'',
          sqlc_DrinkStyle_Description = Some ''chilled'', sqlc_DrinkStyle_CreatedAt = 0,
          sqlc_DrinkStyle_UpdatedAt = 0\<rparr>,
         \<lparr>sqlc_DrinkStyle_ID = 2, sqlc_DrinkStyle_Name = ''atsukan'',
          sqlc_DrinkStyle_Description = None, sqlc_DrinkStyle_CreatedAt = 0,
          sqlc_DrinkStyle_UpdatedAt = 0\<rparr>],
      db_sake_drink_styles =
        [\<lparr>sds_sake_id = 1, sds_drink_style_id = 2\<rparr>,
         \<lparr>sds_sake_id = 1, sds_drink_style_id = 1\<rparr>,
         \<lparr>sds_sake_id = 2, sds_drink_style_id = 1\<rparr>,
         \<lparr>sds_sake_id = 3, sds_drink_style_id = 2\<rparr>]\<rparr>"

text \<open>The same database with two sakes, the older one referring to a type that does not exist.\<close>

definition dangling_db :: database where
  "dangling_db =
     sample_db\<lparr>db_sakes := [sample_sake 1 1 1 ''Dassai 50'' 1600 None 20,
                              sample_sake 4 9 1 ''Orphan'' 1400 None 10]\<rparr>"

text \<open>
  Queries as a test double would give them: one row in the page, its type and brewery
  found, and the drink-style lookup failing with the given error. The world is not used.
\<close>

definition failing_styles_Queries :: "go_error \<Rightarrow> unit Queries" where
  "failing_styles_Queries e =
     \<lparr>Queries_CountSakes = (\<lambda>arg w. ((1, None), w)),
      Queries_ListSakes = (\<lambda>arg w. (([sample_sake 1 1 1 ''Dassai 50'' 1600 None 10], None), w)),
      Queries_GetSakeType = (\<lambda>id' w. (GetSakeType_sql sample_db id', w)),
      Queries_GetBrewery = (\<lambda>id' w. (GetBrewery_sql sample_db id', w)),
      Queries_GetDrinkStylesBySakeID = (\<lambda>id' w. (([], Some e), w))\<rparr>"

section \<open>Properties\<close>

subsection \<open>Errors\<close>

text \<open>\<open>errors.Is\<close> and \<open>apperror.As\<close> walk the chain that \<open>Unwrap\<close> gives.\<close>

lemma errors_Is_ErrNoRows_Unwrap:
  "errors_Is_ErrNoRows e =
     (e = ErrNoRows \<or> (case Unwrap e of None \<Rightarrow> False | Some e' \<Rightarrow> errors_Is_ErrNoRows e'))"
  by (cases e) simp_all

lemma As_Unwrap:
  "As e = (case e of AppError c m s e' \<Rightarrow> Some e
           | _ \<Rightarrow> (case Unwrap e of None \<Rightarrow> None | Some e' \<Rightarrow> As e'))"
  by (cases e) simp_all

subsection \<open>The use case\<close>

text \<open>
  C1. Whatever the input of \<open>Execute\<close>, the repository is called once, with a filter whose
  offset is 0 when the input offset is negative and the input offset otherwise, and whose
  limit is 20 when the input limit is below 1 or above 100 and the input limit otherwise.
  Clamping itself produces no error: the result of \<open>Execute\<close> is the repository's result
  on that filter, with the repository's error or none.
\<close>

theorem Execute_clamps_offset_and_limit:
  "\<exists>flt.
     Filter_Offset flt = (if sint (Input_Offset input) < 0 then 0 else Input_Offset input) \<and>
     Filter_Limit flt =
       (if sint (Input_Limit input) < 1 \<or> 100 < sint (Input_Limit input) then 20
        else Input_Limit input) \<and>
     snd (Execute (MockSakeRepository canned) input calls) = calls @ [flt] \<and>
     (\<forall>(sakeRepo :: 'w SakeRepository) w.
        snd (Execute sakeRepo input w) = snd (sakeRepo flt w) \<and>
        snd (fst (Execute sakeRepo input w)) = snd (snd (fst (sakeRepo flt w))) \<and>
        fst (fst (Execute sakeRepo input w)) =
          (case fst (sakeRepo flt w) of
             (sakes, pagination, Some e) \<Rightarrow> None
           | (sakes, pagination, None) \<Rightarrow>
               Some \<lparr>Output_Sakes = sakes, Output_Pagination = pagination\<rparr>))"
  by (rule exI [of _ "\<lparr>Filter_TypeID = Input_TypeID input,
        Filter_BreweryID = Input_BreweryID input,
        Filter_Offset = (if sint (Input_Offset input) < 0 then 0 else Input_Offset input),
        Filter_Limit = (if sint (Input_Limit input) < 1 \<or> 100 < sint (Input_Limit input)
                        then 20 else Input_Limit input)\<rparr>"])
     (auto simp: Execute_def MockSakeRepository_def Let_def split: prod.splits option.splits)

theorem Execute_clamps_offset_and_limit_witness:
  "\<exists>flt. Filter_Offset flt = 0 \<and> Filter_Limit flt = 20 \<and>
     snd (Execute (MockSakeRepository ([], Pagination_zero, None))
            \<lparr>Input_TypeID = None, Input_BreweryID = None, Input_Offset = - 1,
             Input_Limit = 101\<rparr> []) = [flt]"
proof -
  let ?i = "\<lparr>Input_TypeID = None, Input_BreweryID = None, Input_Offset = - 1,
             Input_Limit = 101\<rparr>"
  obtain flt
    where "Filter_Offset flt = (if sint (Input_Offset ?i) < 0 then 0 else Input_Offset ?i)"
      and "Filter_Limit flt =
             (if sint (Input_Limit ?i) < 1 \<or> 100 < sint (Input_Limit ?i) then 20
              else Input_Limit ?i)"
      and "snd (Execute (MockSakeRepository ([], Pagination_zero, None)) ?i []) = [] @ [flt]"
    using Execute_clamps_offset_and_limit [of ?i "([], Pagination_zero, None)" "[]"]
    by (elim exE conjE) (rule that)
  then show ?thesis
    by (intro exI [of _ flt]) simp
qed

text \<open>
  C8. When the repository's \<open>List\<close> returns an error on the filter that \<open>Execute\<close> builds,
  \<open>Execute\<close> returns that very error value, neither wrapped nor changed, with a nil
  output (and whatever rows or pagination came with the error are dropped).
\<close>

theorem Execute_returns_repository_error:
  fixes sakeRepo :: "'w SakeRepository"
  assumes "sakeRepo
             \<lparr>Filter_TypeID = Input_TypeID input,
              Filter_BreweryID = Input_BreweryID input,
              Filter_Offset = (if sint (Input_Offset input) < 0 then 0 else Input_Offset input),
              Filter_Limit =
                (if sint (Input_Limit input) < 1 \<or> 100 < sint (Input_Limit input) then 20
                 else Input_Limit input)\<rparr> w
           = ((sakes, pagination, Some e), w')"
  shows "Execute sakeRepo input w = ((None, Some e), w')"
  using assms by (auto simp: Execute_def Let_def)

theorem Execute_returns_repository_error_witness:
  "Execute (MockSakeRepository ([], Pagination_zero, Some (ErrorString ''database error'')))
     \<lparr>Input_TypeID = None, Input_BreweryID = None, Input_Offset = 0, Input_Limit = 20\<rparr> []
   = ((None, Some (ErrorString ''database error'')),
      [\<lparr>Filter_TypeID = None, Filter_BreweryID = None, Filter_Offset = 0, Filter_Limit = 20\<rparr>])"
  by (rule Execute_returns_repository_error) (simp add: MockSakeRepository_def)

text \<open>
  C10. Whatever the input of \<open>Execute\<close>, the filter the repository is called with has the
  type-id and brewery-id of the input, absent or present, in range or not; the result of
  \<open>Execute\<close> is the repository's on that filter. (The filter has two more fields, offset
  and limit, the only ones normalization can change.)
\<close>

theorem Execute_forwards_filters:
  "\<exists>flt.
     Filter_TypeID flt = Input_TypeID input \<and>
     Filter_BreweryID flt = Input_BreweryID input \<and>
     (\<forall>canned calls. snd (Execute (MockSakeRepository canned) input calls) = calls @ [flt]) \<and>
     (\<forall>(sakeRepo :: 'w SakeRepository) w.
        Execute sakeRepo input w =
          (case sakeRepo flt w of
             ((sakes, pagination, Some e), w') \<Rightarrow> ((None, Some e), w')
           | ((sakes, pagination, None), w') \<Rightarrow>
               ((Some \<lparr>Output_Sakes = sakes, Output_Pagination = pagination\<rparr>, None), w')))"
  by (rule exI [of _ "\<lparr>Filter_TypeID = Input_TypeID input,
        Filter_BreweryID = Input_BreweryID input,
        Filter_Offset = (if sint (Input_Offset input) < 0 then 0 else Input_Offset input),
        Filter_Limit = (if sint (Input_Limit input) < 1 \<or> 100 < sint (Input_Limit input)
                        then 20 else Input_Limit input)\<rparr>"])
     (auto simp: Execute_def MockSakeRepository_def Let_def split: prod.splits option.splits)

theorem Execute_forwards_filters_witness:
  "\<exists>flt. Filter_TypeID flt = Some 0 \<and> Filter_BreweryID flt = Some (- 5) \<and>
     snd (Execute (MockSakeRepository ([], Pagination_zero, None))
            \<lparr>Input_TypeID = Some 0, Input_BreweryID = Some (- 5), Input_Offset = 0,
             Input_Limit = 20\<rparr> []) = [flt]"
proof -
  let ?i = "\<lparr>Input_TypeID = Some 0, Input_BreweryID = Some (- 5), Input_Offset = 0,
             Input_Limit = 20\<rparr>"
  obtain flt
    where "Filter_TypeID flt = Input_TypeID ?i" and "Filter_BreweryID flt = Input_BreweryID ?i"
      and "\<forall>canned calls. snd (Execute (MockSakeRepository canned) ?i calls) = calls @ [flt]"
    using Execute_forwards_filters [of ?i] by (elim exE conjE) (rule that)
  then show ?thesis
    by (intro exI [of _ flt]) simp
qed

subsection \<open>The repository adapter\<close>

text \<open>
  Where an error of the conversion comes from: a failed conversion of a row is a failed
  lookup for that row, and a failed loop is a failed conversion of one of the rows.
\<close>

lemma toSakeEntity_Inl:
  assumes "toSakeEntity queries row w = (Inl err, w')"
  shows "\<exists>e wa.
      (snd (fst (Queries_GetSakeType queries (sqlc_Sake_TypeID row) wa)) = Some e \<and>
       err = (if errors_Is_ErrNoRows e then NotFoundError msg_type_not_found
              else DatabaseError msg_type_failed e)) \<or>
      (snd (fst (Queries_GetBrewery queries (sqlc_Sake_BreweryID row) wa)) = Some e \<and>
       err = (if errors_Is_ErrNoRows e then NotFoundError msg_brewery_not_found
              else DatabaseError msg_brewery_failed e)) \<or>
      (snd (fst (Queries_GetDrinkStylesBySakeID queries (sqlc_Sake_ID row) wa)) = Some e \<and>
       err = DatabaseError msg_styles_failed e)"
  using assms unfolding toSakeEntity_def Let_def
  apply (simp split: prod.splits option.splits if_splits)
  by (metis fst_conv snd_conv)+

lemma List_loop_Inl:
  assumes "List_loop queries sakeRows acc w = (Inl err, w')"
  shows "\<exists>row wa. row \<in> set sakeRows \<and> toSakeEntity queries row wa = (Inl err, w')"
  using assms
proof (induction sakeRows arbitrary: acc w)
  case Nil
  then show ?case by simp
next
  case (Cons r rs)
  show ?case
  proof (cases "toSakeEntity queries r w")
    case (Pair res w1)
    show ?thesis
    proof (cases res)
      case (Inl e)
      with Pair Cons.prems show ?thesis by auto
    next
      case (Inr sake)
      with Pair Cons.prems have "List_loop queries rs (acc @ [sake]) w1 = (Inl err, w')"
        by simp
      from Cons.IH [OF this] show ?thesis by auto
    qed
  qed
qed

lemma sample_lookups:
  "GetSakeType_sql sample_db 1 =
     (\<lparr>sqlc_SakeType_ID = 1, sqlc_SakeType_Name = ''junmai daiginjo'',
       sqlc_SakeType_CreatedAt = 0, sqlc_SakeType_UpdatedAt = 0\<rparr>, None)"
  "GetBrewery_sql sample_db 1 =
     (\<lparr>sqlc_Brewery_ID = 1, sqlc_Brewery_Name = ''Asahi Shuzo'',
       sqlc_Brewery_OriginCountry = ''Japan'', sqlc_Brewery_OriginRegion = Some ''Yamaguchi'',
       sqlc_Brewery_Position = Some (Point 132 34), sqlc_Brewery_CreatedAt = 0,
       sqlc_Brewery_UpdatedAt = 0\<rparr>, None)"
  by (simp_all add: GetSakeType_sql_def GetBrewery_sql_def sample_db_def)

lemma List_loop_append:
  "List_loop queries (rows1 @ rows2) acc w =
     (case List_loop queries rows1 acc w of
        (Inl e, w') \<Rightarrow> (Inl e, w')
      | (Inr sakes, w') \<Rightarrow> List_loop queries rows2 sakes w')"
  by (induction rows1 arbitrary: acc w) (auto split: prod.splits sum.splits)

lemma dangling_lookups:
  "GetSakeType_sql dangling_db 1 = GetSakeType_sql sample_db 1"
  "GetBrewery_sql dangling_db 1 = GetBrewery_sql sample_db 1"
  "GetSakeType_sql dangling_db 9 = (sqlc_SakeType_zero, Some ErrNoRows)"
  by (simp_all add: GetSakeType_sql_def GetBrewery_sql_def dangling_db_def sample_db_def)

text \<open>
  C2. Let the count and page queries succeed, let the rows of the page before \<open>row\<close> be
  converted, and let a lookup for \<open>row\<close> fail: the type lookup, or the brewery lookup after
  the type was found, or the drink-style lookup after both were found. Then \<open>List\<close> returns
  no rows, not even the ones already converted, the zero pagination, and an error: a
  not-found error when the type or the brewery lookup fails with \<open>pgx.ErrNoRows\<close>, and a
  database error that wraps the failure when a lookup fails with anything else. The
  drink-style lookup is a many-row query: no row is an empty result for it, not
  \<open>pgx.ErrNoRows\<close> (the query of the file never fails), so its failures are the other ones.
  The two kinds of error have different codes.
\<close>

theorem List_fails_whole_page_on_lookup_failure:
  assumes count: "Queries_CountSakes queries
             \<lparr>CountSakesParams_TypeID = Filter_TypeID flt,
              CountSakesParams_BreweryID = Filter_BreweryID flt\<rparr> w = ((tot, None), wcount)"
      and page: "Queries_ListSakes queries
             \<lparr>ListSakesParams_Limit = Filter_Limit flt,
              ListSakesParams_Offset = Filter_Offset flt,
              ListSakesParams_TypeID = Filter_TypeID flt,
              ListSakesParams_BreweryID = Filter_BreweryID flt\<rparr> wcount =
             ((before @ row # after, None), wpage)"
      and before: "List_loop queries before [] wpage = (Inr sakes, wrow)"
  shows "(Queries_GetSakeType queries (sqlc_Sake_TypeID row) wrow = ((sakeType, Some e), wend) \<longrightarrow>
            sakeRepositoryImpl_List queries flt w =
              (([], Pagination_zero,
                Some (if errors_Is_ErrNoRows e then NotFoundError msg_type_not_found
                      else DatabaseError msg_type_failed e)), wend)) \<and>
         (Queries_GetSakeType queries (sqlc_Sake_TypeID row) wrow = ((sakeType, None), wtype) \<and>
          Queries_GetBrewery queries (sqlc_Sake_BreweryID row) wtype = ((brewery, Some e), wend) \<longrightarrow>
            sakeRepositoryImpl_List queries flt w =
              (([], Pagination_zero,
                Some (if errors_Is_ErrNoRows e then NotFoundError msg_brewery_not_found
                      else DatabaseError msg_brewery_failed e)), wend)) \<and>
         (Queries_GetSakeType queries (sqlc_Sake_TypeID row) wrow = ((sakeType, None), wtype) \<and>
          Queries_GetBrewery queries (sqlc_Sake_BreweryID row) wtype = ((brewery, None), wbrewery) \<and>
          Queries_GetDrinkStylesBySakeID queries (sqlc_Sake_ID row) wbrewery =
            ((drinkStyleRows, Some e), wend) \<and>
          \<not> errors_Is_ErrNoRows e \<longrightarrow>
            sakeRepositoryImpl_List queries flt w =
              (([], Pagination_zero, Some (DatabaseError msg_styles_failed e)), wend)) \<and>
         snd (GetDrinkStylesBySakeID_sql db sakeID) = None \<and>
         Code (NotFoundError m) = ErrCodeNotFound \<and>
         Code (DatabaseError m' cause) = ErrCodeDatabaseError \<and>
         Err (DatabaseError m' cause) = Some cause \<and>
         ErrCodeNotFound \<noteq> ErrCodeDatabaseError"
proof -
  have loop: "List_loop queries (before @ row # after) [] wpage = (Inl err, w')"
    if "toSakeEntity queries row wrow = (Inl err, w')" for err w'
    using before that by (simp add: List_loop_append)
  have list: "sakeRepositoryImpl_List queries flt w = (([], Pagination_zero, Some err), w')"
    if "toSakeEntity queries row wrow = (Inl err, w')" for err w'
    using count page loop [OF that] by (simp add: sakeRepositoryImpl_List_def Let_def)
  show ?thesis
    by (intro conjI impI list)
       (simp_all add: toSakeEntity_def Let_def NotFoundError_def DatabaseError_def
          ErrCodeNotFound_def ErrCodeDatabaseError_def GetDrinkStylesBySakeID_sql_def)
qed

theorem List_fails_whole_page_on_lookup_failure_witness:
  "sakeRepositoryImpl_List sql_Queries
     \<lparr>Filter_TypeID = None, Filter_BreweryID = None, Filter_Offset = 0, Filter_Limit = 20\<rparr>
     dangling_db
   = (([], Pagination_zero, Some (NotFoundError msg_type_not_found)), dangling_db) \<and>
   sakeRepositoryImpl_List (failing_styles_Queries (ErrorString ''connection reset''))
     \<lparr>Filter_TypeID = None, Filter_BreweryID = None, Filter_Offset = 0, Filter_Limit = 20\<rparr> ()
   = (([], Pagination_zero,
       Some (DatabaseError msg_styles_failed (ErrorString ''connection reset''))), ())"
proof -
  let ?f = "\<lparr>Filter_TypeID = None, Filter_BreweryID = None, Filter_Offset = 0, Filter_Limit = 20\<rparr>"
  let ?good = "sample_sake 1 1 1 ''Dassai 50'' 1600 None 20"
  let ?bad = "sample_sake 4 9 1 ''Orphan'' 1400 None 10"
  have count: "Queries_CountSakes sql_Queries
             \<lparr>CountSakesParams_TypeID = Filter_TypeID ?f,
              CountSakesParams_BreweryID = Filter_BreweryID ?f\<rparr> dangling_db = ((2, None), dangling_db)"
    by (simp add: sql_Queries_def CountSakes_sql_def CountSakes_WHERE_def sql_IS_NULL_def
        dangling_db_def)
  have page: "Queries_ListSakes sql_Queries
             \<lparr>ListSakesParams_Limit = Filter_Limit ?f,
              ListSakesParams_Offset = Filter_Offset ?f,
              ListSakesParams_TypeID = Filter_TypeID ?f,
              ListSakesParams_BreweryID = Filter_BreweryID ?f\<rparr> dangling_db =
             (([?good] @ ?bad # [], None), dangling_db)"
    by (simp add: sql_Queries_def ListSakes_sql_def ListSakes_WHERE_def sql_IS_NULL_def
        dangling_db_def sample_sake_def)
  have "\<exists>sake. toSakeEntity sql_Queries ?good dangling_db = (Inr sake, dangling_db)"
    by (simp add: toSakeEntity_def sql_Queries_def sample_sake_def dangling_lookups sample_lookups
        GetDrinkStylesBySakeID_sql_def extractCoordinates_def Let_def)
  then obtain sake where "toSakeEntity sql_Queries ?good dangling_db = (Inr sake, dangling_db)"
    by (elim exE)
  then have before: "List_loop sql_Queries [?good] [] dangling_db = (Inr [sake], dangling_db)"
    by simp
  have type: "Queries_GetSakeType sql_Queries (sqlc_Sake_TypeID ?bad) dangling_db =
                ((sqlc_SakeType_zero, Some ErrNoRows), dangling_db)"
    by (simp add: sql_Queries_def sample_sake_def dangling_lookups)
  have 1: "sakeRepositoryImpl_List sql_Queries ?f dangling_db =
             (([], Pagination_zero, Some (NotFoundError msg_type_not_found)), dangling_db)"
    using List_fails_whole_page_on_lookup_failure [OF count page before, where sakeType = sqlc_SakeType_zero and e = ErrNoRows
        and wend = dangling_db] type
    by simp
  let ?q = "failing_styles_Queries (ErrorString ''connection reset'')"
  let ?row = "sample_sake 1 1 1 ''Dassai 50'' 1600 None 10"
  have count': "Queries_CountSakes ?q
             \<lparr>CountSakesParams_TypeID = Filter_TypeID ?f,
              CountSakesParams_BreweryID = Filter_BreweryID ?f\<rparr> () = ((1, None), ())"
    by (simp add: failing_styles_Queries_def)
  have page': "Queries_ListSakes ?q
             \<lparr>ListSakesParams_Limit = Filter_Limit ?f,
              ListSakesParams_Offset = Filter_Offset ?f,
              ListSakesParams_TypeID = Filter_TypeID ?f,
              ListSakesParams_BreweryID = Filter_BreweryID ?f\<rparr> () = (([] @ ?row # [], None), ())"
    by (simp add: failing_styles_Queries_def)
  have before': "List_loop ?q [] [] () = (Inr [], ())" by simp
  have lookups: "Queries_GetSakeType ?q (sqlc_Sake_TypeID ?row) () =
                   ((fst (GetSakeType_sql sample_db 1), None), ())"
    "Queries_GetBrewery ?q (sqlc_Sake_BreweryID ?row) () =
                   ((fst (GetBrewery_sql sample_db 1), None), ())"
    "Queries_GetDrinkStylesBySakeID ?q (sqlc_Sake_ID ?row) () =
                   (([], Some (ErrorString ''connection reset'')), ())"
    by (simp_all add: failing_styles_Queries_def sample_sake_def sample_lookups)
  have 2: "sakeRepositoryImpl_List ?q ?f () =
       (([], Pagination_zero,
         Some (DatabaseError msg_styles_failed (ErrorString ''connection reset''))), ())"
    using List_fails_whole_page_on_lookup_failure [OF count' page' before', where sakeType = "fst (GetSakeType_sql sample_db 1)"
        and wtype = "()" and brewery = "fst (GetBrewery_sql sample_db 1)" and wbrewery = "()"
        and drinkStyleRows = "[]" and e = "ErrorString ''connection reset''" and wend = "()"]
      lookups
    by simp
  from 1 2 show ?thesis by simp
qed

lemma sample_entity:
  "\<exists>sake. toSakeEntity sql_Queries (sample_sake 1 1 1 ''Dassai 50'' 1600 (Some ''memo'') 10) sample_db =
     (Inr sake, sample_db)"
  by (simp add: toSakeEntity_def sql_Queries_def sample_sake_def sample_lookups
        GetDrinkStylesBySakeID_sql_def extractCoordinates_def Let_def)

text \<open>
  C9. Whatever value \<open>extractCoordinates\<close> is given, of whatever type, a present point
  included, both coordinates it returns are absent; so the brewery of every entity that
  \<open>toSakeEntity\<close> builds has neither latitude nor longitude.
\<close>

theorem extractCoordinates_absent:
  "extractCoordinates geomData = (None, None) \<and>
   extractCoordinates (Some (Point lon lat)) = (None, None) \<and>
   (\<nexists>v. fst (extractCoordinates geomData) = Some v) \<and>
   (\<nexists>v. snd (extractCoordinates geomData) = Some v) \<and>
   (toSakeEntity queries row w = (Inr sake, w') \<longrightarrow>
      Brewery_Latitude (Sake_Brewery sake) = None \<and>
      Brewery_Longitude (Sake_Brewery sake) = None)"
  by (auto simp: extractCoordinates_def toSakeEntity_def Let_def
      split: prod.splits option.splits if_splits)

theorem extractCoordinates_absent_witness:
  "\<exists>sake.
     toSakeEntity sql_Queries (sample_sake 1 1 1 ''Dassai 50'' 1600 (Some ''memo'') 10) sample_db =
       (Inr sake, sample_db) \<and>
     sqlc_Brewery_Position (fst (GetBrewery_sql sample_db 1)) = Some (Point 132 34) \<and>
     Brewery_Latitude (Sake_Brewery sake) = None \<and>
     Brewery_Longitude (Sake_Brewery sake) = None"
proof -
  obtain sake where s: "toSakeEntity sql_Queries
      (sample_sake 1 1 1 ''Dassai 50'' 1600 (Some ''memo'') 10) sample_db = (Inr sake, sample_db)"
    using sample_entity by (elim exE)
  from extractCoordinates_absent [of "()" 0 0 sql_Queries
      "sample_sake 1 1 1 ''Dassai 50'' 1600 (Some ''memo'') 10" sample_db sake sample_db] s
  have "Brewery_Latitude (Sake_Brewery sake) = None \<and>
        Brewery_Longitude (Sake_Brewery sake) = None" by simp
  with s show ?thesis
    by (intro exI [of _ sake]) (simp add: sample_lookups)
qed





lemma List_Some_None:
  assumes "sakeRepositoryImpl_List queries flt w = ((sakes, pagination, None), w')"
  shows "\<exists>tot w1 sakeRows w2.
     Queries_CountSakes queries
             \<lparr>CountSakesParams_TypeID = Filter_TypeID flt,
              CountSakesParams_BreweryID = Filter_BreweryID flt\<rparr> w = ((tot, None), w1) \<and>
     Queries_ListSakes queries
             \<lparr>ListSakesParams_Limit = Filter_Limit flt,
              ListSakesParams_Offset = Filter_Offset flt,
              ListSakesParams_TypeID = Filter_TypeID flt,
              ListSakesParams_BreweryID = Filter_BreweryID flt\<rparr> w1 = ((sakeRows, None), w2) \<and>
     List_loop queries sakeRows [] w2 = (Inr sakes, w') \<and>
     pagination = \<lparr>Pagination_Total = tot, Pagination_Offset = Filter_Offset flt,
                    Pagination_Limit = Filter_Limit flt\<rparr>"
  using assms unfolding sakeRepositoryImpl_List_def Let_def
  by (auto split: prod.splits option.splits sum.splits)


lemma sample_page:
  "sakeRepositoryImpl_List sql_Queries
     \<lparr>Filter_TypeID = None, Filter_BreweryID = Some 2, Filter_Offset = 0, Filter_Limit = 1\<rparr>
     sample_db =
   (([\<lparr>Sake_ID = 3,
       Sake_Type = \<lparr>SakeType_ID = 2, SakeType_Name = ''honjozo''\<rparr>,
       Sake_Brewery = \<lparr>Brewery_ID = 2, Brewery_Name = ''Hakkaisan'',
          Brewery_OriginCountry = ''Japan'', Brewery_OriginRegion = None,
          Brewery_Latitude = None, Brewery_Longitude = None\<rparr>,
       Sake_Name = ''Tokubetsu'',
       Sake_ABV = convertNumericToFloat32 (sample_abv 1505),
       Sake_TasteNotes = ''fruity'', Sake_Memo = None,
       Sake_DrinkStyles = [\<lparr>DrinkStyle_ID = 2, DrinkStyle_Name = ''atsukan'',
          DrinkStyle_Description = None\<rparr>],
       Sake_CreatedAt = 30, Sake_UpdatedAt = 30\<rparr>],
     \<lparr>Pagination_Total = 2, Pagination_Offset = 0, Pagination_Limit = 1\<rparr>, None), sample_db)"
  by (simp add: sakeRepositoryImpl_List_def sql_Queries_def CountSakes_sql_def ListSakes_sql_def
      GetSakeType_sql_def GetBrewery_sql_def GetDrinkStylesBySakeID_sql_def toSakeEntity_def
      extractCoordinates_def CountSakes_WHERE_def ListSakes_WHERE_def sql_IS_NULL_def sql_EQ_def
      sample_db_def sample_sake_def Let_def)

text \<open>
  C5. When \<open>List\<close> succeeds, the count query was run with the filter's type-id and
  brewery-id and succeeded, and the pagination returned has its result as \<open>Total\<close>,
  whatever the number of rows in the page, and the filter's own offset and limit as
  \<open>Offset\<close> and \<open>Limit\<close>. \<open>toListSakesResponse\<close> copies the three values, field by field,
  into the meta block of the response.
\<close>

theorem List_pagination_echo:
  assumes "sakeRepositoryImpl_List queries flt w = ((sakes, pagination, None), w')"
  shows "\<exists>tot w1.
     Queries_CountSakes queries
        \<lparr>CountSakesParams_TypeID = Filter_TypeID flt,
         CountSakesParams_BreweryID = Filter_BreweryID flt\<rparr> w = ((tot, None), w1) \<and>
     Pagination_Total pagination = tot \<and>
     Pagination_Offset pagination = Filter_Offset flt \<and>
     Pagination_Limit pagination = Filter_Limit flt \<and>
     Response_Meta (toListSakesResponse \<lparr>Output_Sakes = sakes, Output_Pagination = pagination\<rparr>) =
       Some \<lparr>Meta_Total = tot, Meta_Offset = Filter_Offset flt, Meta_Limit = Filter_Limit flt\<rparr>"
  using List_Some_None [OF assms] by (auto simp: toListSakesResponse_def Let_def)

theorem List_pagination_echo_witness:
  "\<exists>sakes pagination.
     sakeRepositoryImpl_List sql_Queries
       \<lparr>Filter_TypeID = None, Filter_BreweryID = Some 2, Filter_Offset = 0, Filter_Limit = 1\<rparr>
       sample_db = ((sakes, pagination, None), sample_db) \<and>
     length sakes = 1 \<and>
     Pagination_Total pagination = 2 \<and> Pagination_Offset pagination = 0 \<and>
     Pagination_Limit pagination = 1 \<and>
     Response_Meta (toListSakesResponse \<lparr>Output_Sakes = sakes, Output_Pagination = pagination\<rparr>) =
       Some \<lparr>Meta_Total = 2, Meta_Offset = 0, Meta_Limit = 1\<rparr>"
proof -
  let ?f = "\<lparr>Filter_TypeID = None, Filter_BreweryID = Some 2, Filter_Offset = 0, Filter_Limit = 1\<rparr>"
  obtain sakes pagination where
    l: "sakeRepositoryImpl_List sql_Queries ?f sample_db = ((sakes, pagination, None), sample_db)"
    and s: "length sakes = 1"
    using sample_page by simp
  from List_pagination_echo [OF l] obtain tot w1 where
    "Queries_CountSakes sql_Queries
        \<lparr>CountSakesParams_TypeID = Filter_TypeID ?f,
         CountSakesParams_BreweryID = Filter_BreweryID ?f\<rparr> sample_db = ((tot, None), w1)"
    and "Pagination_Total pagination = tot"
    and "Pagination_Offset pagination = Filter_Offset ?f"
    and "Pagination_Limit pagination = Filter_Limit ?f"
    and "Response_Meta (toListSakesResponse \<lparr>Output_Sakes = sakes, Output_Pagination = pagination\<rparr>) =
       Some \<lparr>Meta_Total = tot, Meta_Offset = Filter_Offset ?f, Meta_Limit = Filter_Limit ?f\<rparr>"
    by blast
  moreover from this(1) have "tot = 2"
    by (simp add: sql_Queries_def CountSakes_sql_def CountSakes_WHERE_def sql_IS_NULL_def
        sql_EQ_def sample_db_def sample_sake_def)
  ultimately show ?thesis using l s by simp
qed




subsection \<open>Accuracy of the conversion of \<open>abv\<close>\<close>

text \<open>
  The rounding on known values: the \<open>float32\<close> and \<open>float64\<close> nearest to one tenth, and the
  conversion of stored values of \<open>abv\<close> (16.00, which is exact; 15.05, which is not; NULL;
  NaN).
\<close>

lemma rounding_examples:
  "round_float32 (1 / 10) = Fin (13421773 / 134217728)"
  "round_float64 (1 / 10) = Fin (3602879701896397 / 36028797018963968)"
  "convertNumericToFloat32 (sample_abv 1600) = Fin 16"
  "convertNumericToFloat32 (sample_abv 1505) = Fin (15781069 / 1048576)"
  "convertNumericToFloat32 ((sample_abv 1505)\<lparr>Numeric_Valid := False\<rparr>) = Fin 0"
  "convertNumericToFloat32 ((sample_abv 1505)\<lparr>Numeric_NaN := True\<rparr>) = NaN"
  by code_simp+

lemma round_half_even_error: "\<bar>of_int (round_half_even x) - x\<bar> \<le> 1 / 2"
proof -
  have "of_int \<lfloor>x\<rfloor> \<le> x" "x < of_int \<lfloor>x\<rfloor> + 1" by linarith+
  then show ?thesis
    unfolding round_half_even_def Let_def by (auto simp: abs_le_iff)
qed

lemma round_half_even_nearest:
  assumes "\<bar>x - of_int k\<bar> < 1 / 2"
  shows "round_half_even x = k"
proof (cases "of_int k \<le> x")
  case True
  with assms have "\<lfloor>x\<rfloor> = k" by (intro floor_unique) (auto simp: abs_less_iff)
  with assms True show ?thesis
    unfolding round_half_even_def Let_def by (auto simp: abs_less_iff)
next
  case False
  with assms have "\<lfloor>x\<rfloor> = k - 1" by (intro floor_unique) (auto simp: abs_less_iff)
  with assms False show ?thesis
    unfolding round_half_even_def Let_def by (auto simp: abs_less_iff)
qed

lemma ilog2_le:
  assumes "0 < x"
  shows "2 powi ilog2 x \<le> x"
proof -
  obtain a b where q: "quotient_of x = (a, b)" by (cases "quotient_of x")
  have b: "0 < b" using quotient_of_denom_pos [OF q] .
  have x: "x = of_int a / of_int b" using quotient_of_div [OF q] .
  from assms x b have a: "0 < a" by (simp add: zero_less_divide_iff)
  let ?d = "bitlen a - bitlen b"
  show ?thesis
  proof (cases "x < 2 powi ?d")
    case False
    then show ?thesis by (simp add: ilog2_def q)
  next
    case True
    have la: "1 \<le> bitlen a" using a bitlen_eq_zero_iff [of a] bitlen_nonneg [of a] by linarith
    have lb: "1 \<le> bitlen b" using b bitlen_eq_zero_iff [of b] bitlen_nonneg [of b] by linarith
    have "(2::int) ^ nat (bitlen a - 1) \<le> a" using bitlen_bounds [OF a] by simp
    then have "(of_int ((2::int) ^ nat (bitlen a - 1)) :: rat) \<le> of_int a"
      by (simp only: of_int_le_iff)
    then have 1: "(2::rat) powi (bitlen a - 1) \<le> of_int a"
      using la by (simp add: power_int_nonneg_exp)
    have "b < 2 ^ nat (bitlen b)" using bitlen_bounds [OF b] by simp
    then have "(of_int b :: rat) < of_int ((2::int) ^ nat (bitlen b))"
      by (simp only: of_int_less_iff)
    then have 2: "(of_int b :: rat) < 2 powi bitlen b"
      using lb by (simp add: power_int_nonneg_exp)
    have "(2::rat) powi (?d - 1) = 2 powi ((bitlen a - 1) - bitlen b)"
      by (simp add: algebra_simps)
    also have "\<dots> = 2 powi (bitlen a - 1) / 2 powi bitlen b"
      by (rule power_int_diff) simp
    also have "\<dots> \<le> of_int a / 2 powi bitlen b"
      using 1 by (intro divide_right_mono) simp_all
    also have "\<dots> \<le> of_int a / of_int b"
      using 2 a b by (intro divide_left_mono) (simp_all add: less_imp_le)
    finally have "(2::rat) powi (?d - 1) \<le> x" by (simp only: x)
    moreover have "ilog2 x = ?d - 1" using True by (simp add: ilog2_def q)
    ultimately show ?thesis by simp
  qed
qed

lemma ilog2_less:
  assumes "0 < x" "x < 2 powi k"
  shows "ilog2 x < k"
proof (rule ccontr)
  assume "\<not> ilog2 x < k"
  then have "(2::rat) powi k \<le> 2 powi ilog2 x" by (intro power_int_increasing) simp_all
  with ilog2_le [OF assms(1)] assms(2) show False by simp
qed

text \<open>
  Rounding a number below \<open>2 powi k\<close> that does not overflow moves it by at most half a unit
  in the last place of the binade below \<open>2 powi k\<close>.
\<close>

lemma round_ieee_error:
  assumes bound: "\<bar>x\<bar> < 2 powi k" and emin: "emin < k"
    and range: "\<bar>x\<bar> + 2 powi (k - int p - 1) < 2 powi (emax + 1)"
  shows "\<exists>r. round_ieee p emin emax x = Fin r \<and> \<bar>r - x\<bar> \<le> 2 powi (k - int p - 1)"
proof (cases "x = 0")
  case True
  then show ?thesis by (simp add: round_ieee_def)
next
  case False
  define q where "q = max (ilog2 \<bar>x\<bar>) emin - (int p - 1)"
  define z where "z = \<bar>x\<bar> / 2 powi q"
  define y where "y = of_int (round_half_even z) * (2::rat) powi q"
  have pos: "(0::rat) < 2 powi q" by simp
  from False bound have "ilog2 \<bar>x\<bar> < k" by (intro ilog2_less) simp_all
  with emin have q: "q \<le> k - int p" by (simp add: q_def)
  have "y - \<bar>x\<bar> = (of_int (round_half_even z) - z) * 2 powi q"
    by (simp add: y_def z_def algebra_simps)
  then have "\<bar>y - \<bar>x\<bar>\<bar> = \<bar>of_int (round_half_even z) - z\<bar> * 2 powi q"
    by (simp add: abs_mult)
  also have "\<dots> \<le> 1 / 2 * 2 powi q"
    using round_half_even_error [of z] by (intro mult_right_mono) simp_all
  also have "\<dots> = 2 powi (q - 1)" by (simp add: power_int_diff)
  also have "\<dots> \<le> 2 powi (k - int p - 1)" using q by (intro power_int_increasing) simp_all
  finally have err: "\<bar>y - \<bar>x\<bar>\<bar> \<le> 2 powi (k - int p - 1)" .
  then have "y \<le> \<bar>x\<bar> + 2 powi (k - int p - 1)" by (simp add: abs_le_iff)
  with range have "\<not> 2 powi (emax + 1) \<le> y" by simp
  then have r: "round_ieee p emin emax x = Fin (sgn x * y)"
    using False by (simp add: round_ieee_def Let_def y_def z_def q_def)
  have "sgn x * (y - \<bar>x\<bar>) = sgn x * y - sgn x * \<bar>x\<bar>" by (simp add: algebra_simps)
  then have "sgn x * y - x = sgn x * (y - \<bar>x\<bar>)" by (simp add: mult_sgn_abs)
  then have "\<bar>sgn x * y - x\<bar> = \<bar>y - \<bar>x\<bar>\<bar>" using False by (simp add: abs_mult abs_sgn_eq)
  with err r show ?thesis by simp
qed

text \<open>
  A stored \<open>abv\<close> is below 128 in magnitude: the rounding to \<open>float64\<close> moves it by at most
  \<open>2 powi (- 47)\<close> and the one to \<open>float32\<close> by at most \<open>2 powi (- 18)\<close>.
\<close>

lemma convertNumericToFloat32_accuracy:
  assumes valid: "Numeric_Valid n" and nan: "\<not> Numeric_NaN n"
    and fin: "Numeric_InfinityModifier n = Finite"
    and val: "Numeric_value n = of_int k / 100" and k: "\<bar>k\<bar> \<le> 9999"
  shows "\<exists>a. convertNumericToFloat32 n = Fin a \<and>
             \<bar>a - of_int k / 100\<bar> \<le> 2 powi (- 18) + 2 powi (- 47)"
proof -
  define v :: rat where "v = of_int k / 100"
  from k have "\<bar>(of_int k :: rat)\<bar> \<le> 9999"
    by (metis of_int_abs of_int_le_iff of_int_numeral)
  then have v: "\<bar>v\<bar> \<le> 9999 / 100" by (simp add: v_def)
  have big64: "(2::rat) powi 8 \<le> 2 powi (1023 + 1)" by (intro power_int_increasing) simp_all
  have big32: "(2::rat) powi 8 \<le> 2 powi (127 + 1)" by (intro power_int_increasing) simp_all
  have "\<exists>r. round_ieee 53 (- 1022) 1023 v = Fin r \<and> \<bar>r - v\<bar> \<le> 2 powi (7 - int 53 - 1)"
  proof (rule round_ieee_error)
    show "\<bar>v\<bar> < 2 powi 7" using v by simp
    show "- 1022 < (7::int)" by simp
    have "\<bar>v\<bar> + 2 powi (7 - int 53 - 1) < 2 powi 8" using v by simp
    with big64 show "\<bar>v\<bar> + 2 powi (7 - int 53 - 1) < 2 powi (1023 + 1)" by linarith
  qed
  then obtain f where f: "round_float64 v = Fin f" and ferr: "\<bar>f - v\<bar> \<le> 2 powi (- 47)"
    by (auto simp: round_float64_def)
  have "(2::rat) powi (- 47) \<le> 1" by simp
  with v ferr have fb: "\<bar>f\<bar> < 101" by linarith
  have "\<exists>r. round_ieee 24 (- 126) 127 f = Fin r \<and> \<bar>r - f\<bar> \<le> 2 powi (7 - int 24 - 1)"
  proof (rule round_ieee_error)
    show "\<bar>f\<bar> < 2 powi 7" using fb by simp
    show "- 126 < (7::int)" by simp
    have "\<bar>f\<bar> + 2 powi (7 - int 24 - 1) < 2 powi 8" using fb by simp
    with big32 show "\<bar>f\<bar> + 2 powi (7 - int 24 - 1) < 2 powi (127 + 1)" by linarith
  qed
  then obtain a where a: "round_float32 f = Fin a" and aerr: "\<bar>a - f\<bar> \<le> 2 powi (- 18)"
    by (auto simp: round_float32_def)
  have "Float64Value n = (\<lparr>Float8_Float64 = Fin f, Float8_Valid = True\<rparr>, None)"
    using valid nan fin f by (simp add: Float64Value_def val v_def)
  then have "convertNumericToFloat32 n = Fin a"
    using a by (simp add: convertNumericToFloat32_def)
  moreover have "\<bar>a - v\<bar> \<le> 2 powi (- 18) + 2 powi (- 47)"
    using ferr aerr by linarith
  ultimately show ?thesis by (auto simp: v_def)
qed

lemma two_decimals:
  assumes "\<bar>a - of_int k / 100\<bar> \<le> 2 powi (- 18) + 2 powi (- 47)"
  shows "\<bar>a - of_int k / 100\<bar> < 1 / 200" and "round_half_even (a * 100) = k"
proof -
  have "(2::rat) powi (- 18) + 2 powi (- 47) < 1 / 200" by simp
  with assms show 1: "\<bar>a - of_int k / 100\<bar> < 1 / 200" by linarith
  from 1 have "\<bar>a * 100 - of_int k\<bar> < 1 / 2" by linarith
  then show "round_half_even (a * 100) = k" by (rule round_half_even_nearest)
qed

lemma convertNumericToFloat32_NaN:
  "Numeric_Valid n \<Longrightarrow> Numeric_NaN n \<Longrightarrow> convertNumericToFloat32 n = NaN"
  by (simp add: convertNumericToFloat32_def Float64Value_def)

text \<open>
  C6. Take a row of \<open>sakes\<close> whose type, brewery and drink styles are found, the brewery
  with a region and the drink styles at least one, and whose \<open>abv\<close> is a value of its column
  \<open>NUMERIC(4, 2) NOT NULL\<close>: \<open>k\<close> hundredths with \<open>\<bar>k\<bar> \<le> 9999\<close>, or NaN. Then \<open>toSakeEntity\<close>
  succeeds, and \<open>toSakeResponse\<close> of the entity has the row's name, taste notes and memo
  (absent or present, with its value), the drink styles of the lookup in their order with
  id, name and description, and the brewery's region. Its \<open>abv\<close> is a finite number within
  0.005 of the stored one, so that rounding it to two decimal places gives the stored value
  back (NaN stays NaN).
\<close>

theorem Sake_round_trip:
  assumes type: "Queries_GetSakeType queries (sqlc_Sake_TypeID row) w = ((sakeType, None), w1)"
    and brewery: "Queries_GetBrewery queries (sqlc_Sake_BreweryID row) w1 = ((brewery, None), w2)"
    and styles: "Queries_GetDrinkStylesBySakeID queries (sqlc_Sake_ID row) w2 =
                   ((drinkStyleRows, None), w3)"
    and region: "sqlc_Brewery_OriginRegion brewery = Some region"
    and nonempty: "drinkStyleRows \<noteq> []"
    and valid: "Numeric_Valid (sqlc_Sake_Abv row)"
    and stored: "Numeric_NaN (sqlc_Sake_Abv row) \<or>
                 Numeric_InfinityModifier (sqlc_Sake_Abv row) = Finite \<and>
                 Numeric_value (sqlc_Sake_Abv row) = of_int k / 100 \<and> \<bar>k\<bar> \<le> 9999"
  shows "\<exists>sake.
           toSakeEntity queries row w = (Inr sake, w3) \<and>
           gen_Sake_Name (toSakeResponse sake) = sqlc_Sake_Name row \<and>
           (if Numeric_NaN (sqlc_Sake_Abv row) then gen_Sake_Abv (toSakeResponse sake) = NaN
            else \<exists>a. gen_Sake_Abv (toSakeResponse sake) = Fin a \<and>
                     \<bar>a - of_int k / 100\<bar> < 1 / 200 \<and> round_half_even (a * 100) = k) \<and>
           gen_Sake_TasteNotes (toSakeResponse sake) = sqlc_Sake_TasteNotes row \<and>
           gen_Sake_Memo (toSakeResponse sake) = sqlc_Sake_Memo row \<and>
           map (\<lambda>d. (gen_DrinkStyle_Id d, gen_DrinkStyle_Name d, gen_DrinkStyle_Description d))
               (gen_Sake_DrinkStyles (toSakeResponse sake)) =
             map (\<lambda>d. (sqlc_DrinkStyle_ID d, sqlc_DrinkStyle_Name d, sqlc_DrinkStyle_Description d))
               drinkStyleRows \<and>
           gen_Brewery_OriginRegion (gen_Sake_Brewery (toSakeResponse sake)) = Some region"
proof -
  obtain sake where s: "toSakeEntity queries row w = (Inr sake, w3)"
    using type brewery styles
    by (simp add: toSakeEntity_def extractCoordinates_def Let_def split: prod.splits)
  from s type brewery styles region
  have copied: "gen_Sake_Name (toSakeResponse sake) = sqlc_Sake_Name row \<and>
           gen_Sake_TasteNotes (toSakeResponse sake) = sqlc_Sake_TasteNotes row \<and>
           gen_Sake_Memo (toSakeResponse sake) = sqlc_Sake_Memo row \<and>
           map (\<lambda>d. (gen_DrinkStyle_Id d, gen_DrinkStyle_Name d, gen_DrinkStyle_Description d))
               (gen_Sake_DrinkStyles (toSakeResponse sake)) =
             map (\<lambda>d. (sqlc_DrinkStyle_ID d, sqlc_DrinkStyle_Name d, sqlc_DrinkStyle_Description d))
               drinkStyleRows \<and>
           gen_Brewery_OriginRegion (gen_Sake_Brewery (toSakeResponse sake)) = Some region"
    by (auto simp: toSakeEntity_def toSakeResponse_def Let_def comp_def split: prod.splits)
  from s type brewery styles
  have abv: "gen_Sake_Abv (toSakeResponse sake) = convertNumericToFloat32 (sqlc_Sake_Abv row)"
    by (auto simp: toSakeEntity_def toSakeResponse_def Let_def split: prod.splits)
  have "if Numeric_NaN (sqlc_Sake_Abv row) then gen_Sake_Abv (toSakeResponse sake) = NaN
        else \<exists>a. gen_Sake_Abv (toSakeResponse sake) = Fin a \<and>
                 \<bar>a - of_int k / 100\<bar> < 1 / 200 \<and> round_half_even (a * 100) = k"
  proof (cases "Numeric_NaN (sqlc_Sake_Abv row)")
    case True
    with valid abv show ?thesis by (simp add: convertNumericToFloat32_NaN)
  next
    case False
    with stored have fin: "Numeric_InfinityModifier (sqlc_Sake_Abv row) = Finite"
      and val: "Numeric_value (sqlc_Sake_Abv row) = of_int k / 100" and k: "\<bar>k\<bar> \<le> 9999"
      by simp_all
    obtain a where a: "convertNumericToFloat32 (sqlc_Sake_Abv row) = Fin a"
      and err: "\<bar>a - of_int k / 100\<bar> \<le> 2 powi (- 18) + 2 powi (- 47)"
      using convertNumericToFloat32_accuracy [OF valid False fin val k] by blast
    from two_decimals [OF err] a abv False show ?thesis by simp
  qed
  with s copied show ?thesis by blast
qed

theorem Sake_round_trip_witness:
  "\<exists>sake a.
     toSakeEntity sql_Queries (sample_sake 1 1 1 ''Dassai 50'' 1600 (Some ''memo'') 10) sample_db =
       (Inr sake, sample_db) \<and>
     gen_Sake_Name (toSakeResponse sake) = ''Dassai 50'' \<and>
     gen_Sake_Abv (toSakeResponse sake) = Fin a \<and> round_half_even (a * 100) = 1600 \<and>
     gen_Sake_TasteNotes (toSakeResponse sake) = ''fruity'' \<and>
     gen_Sake_Memo (toSakeResponse sake) = Some ''memo'' \<and>
     map (\<lambda>d. (gen_DrinkStyle_Id d, gen_DrinkStyle_Name d, gen_DrinkStyle_Description d))
       (gen_Sake_DrinkStyles (toSakeResponse sake)) =
       [(1, ''reishu'', Some ''chilled''), (2, ''atsukan'', None)] \<and>
     gen_Brewery_OriginRegion (gen_Sake_Brewery (toSakeResponse sake)) = Some ''Yamaguchi''"
proof -
  let ?row = "sample_sake 1 1 1 ''Dassai 50'' 1600 (Some ''memo'') 10"
  let ?styles = "[\<lparr>sqlc_DrinkStyle_ID = 1, sqlc_DrinkStyle_Name = ''reishu'',
          sqlc_DrinkStyle_Description = Some ''chilled'', sqlc_DrinkStyle_CreatedAt = 0,
          sqlc_DrinkStyle_UpdatedAt = 0\<rparr>,
         \<lparr>sqlc_DrinkStyle_ID = 2, sqlc_DrinkStyle_Name = ''atsukan'',
          sqlc_DrinkStyle_Description = None, sqlc_DrinkStyle_CreatedAt = 0,
          sqlc_DrinkStyle_UpdatedAt = 0\<rparr>]"
  have 1: "Queries_GetSakeType sql_Queries (sqlc_Sake_TypeID ?row) sample_db =
             ((fst (GetSakeType_sql sample_db 1), None), sample_db)"
    by (simp add: sql_Queries_def sample_sake_def sample_lookups)
  have 2: "Queries_GetBrewery sql_Queries (sqlc_Sake_BreweryID ?row) sample_db =
             ((fst (GetBrewery_sql sample_db 1), None), sample_db)"
    by (simp add: sql_Queries_def sample_sake_def sample_lookups)
  have 3: "Queries_GetDrinkStylesBySakeID sql_Queries (sqlc_Sake_ID ?row) sample_db =
             ((?styles, None), sample_db)"
    by (simp add: sql_Queries_def sample_sake_def GetDrinkStylesBySakeID_sql_def sample_db_def)
  have 4: "sqlc_Brewery_OriginRegion (fst (GetBrewery_sql sample_db 1)) = Some ''Yamaguchi''"
    by (simp add: sample_lookups)
  have 5: "?styles \<noteq> []" by simp
  have 6: "Numeric_Valid (sqlc_Sake_Abv ?row)"
    by (simp add: sample_sake_def sample_abv_def)
  have 7: "Numeric_NaN (sqlc_Sake_Abv ?row) \<or>
           Numeric_InfinityModifier (sqlc_Sake_Abv ?row) = Finite \<and>
           Numeric_value (sqlc_Sake_Abv ?row) = of_int 1600 / 100 \<and> \<bar>1600 :: int\<bar> \<le> 9999"
    by (simp add: sample_sake_def sample_abv_def Numeric_value_def)
  have 8: "\<not> Numeric_NaN (sqlc_Sake_Abv ?row)"
    by (simp add: sample_sake_def sample_abv_def)
  from Sake_round_trip [OF 1 2 3 4 5 6 7] 8 show ?thesis
    by (auto simp: sample_sake_def)
qed

subsection \<open>The presentation adapter\<close>

lemma validate_Var_simps:
  "(validate_Var v [Tag_min n] \<noteq> None) = (sint v < n)"
  "(validate_Var v [Tag_min n, Tag_max m] \<noteq> None) = (sint v < n \<or> m < sint v)"
  by (auto simp: validate_Var_def)

text \<open>The field errors that \<open>validateListSakesParams\<close> collects, rule by rule.\<close>

lemma validateListSakesParams_Fields:
  "validateListSakesParams params =
     (let fs =
        (case Params_Offset params of None \<Rightarrow> []
         | Some v \<Rightarrow> if sint v < 0 then [(''offset'', msg_offset)] else []) @
        (case Params_Limit params of None \<Rightarrow> []
         | Some v \<Rightarrow> if sint v < 1 \<or> 100 < sint v then [(''limit'', msg_limit)] else []) @
        (case Params_TypeId params of None \<Rightarrow> []
         | Some v \<Rightarrow> if sint v < 1 then [(''type_id'', msg_type_id)] else []) @
        (case Params_BreweryId params of None \<Rightarrow> []
         | Some v \<Rightarrow> if sint v < 1 then [(''brewery_id'', msg_brewery_id)] else [])
      in if fs = [] then None
         else Some (ValidationError ErrCodeValidationError msg_invalid_params
                      StatusBadRequest None fs))"
  unfolding validateListSakesParams_def validate_Var_simps Let_def NewValidationError_def
  by (simp split: option.splits)

text \<open>
  C3. When at least one of the four rules fails (offset present and negative, limit
  present and outside 1 to 100, type-id present and below 1, brewery-id present and below
  1), the handler answers 400 with an error body that holds, for each rule that fails and
  for no other, one \<open>VALIDATION_ERROR\<close> entry whose message starts with the field's name: all
  four rules are evaluated, whatever the others give. The world is left as it was and the
  answer does not depend on the use case; a use case that records its calls records none.
\<close>

theorem ListSakes_rejects_invalid_params:
  fixes listSakesUsecase :: "'w ListSakesUsecaseInterface"
  assumes "(\<exists>v. Params_Offset params = Some v \<and> sint v < 0) \<or>
           (\<exists>v. Params_Limit params = Some v \<and> (sint v < 1 \<or> 100 < sint v)) \<or>
           (\<exists>v. Params_TypeId params = Some v \<and> sint v < 1) \<or>
           (\<exists>v. Params_BreweryId params = Some v \<and> sint v < 1)"
  shows "\<exists>errs.
           ListSakes listSakesUsecase params w =
             (JSON StatusBadRequest
                (ErrorResponse \<lparr>ErrorResponse_Data = None, ErrorResponse_Errors = Some errs\<rparr>), w) \<and>
           snd (ListSakes (MockListSakesUsecase canned) params calls) = calls \<and>
           mset errs =
             mset ((if \<exists>v. Params_Offset params = Some v \<and> sint v < 0
                    then [\<lparr>APIError_Code = ErrCodeValidationError,
                           APIError_Message = ''offset: '' @ msg_offset\<rparr>] else []) @
                   (if \<exists>v. Params_Limit params = Some v \<and> (sint v < 1 \<or> 100 < sint v)
                    then [\<lparr>APIError_Code = ErrCodeValidationError,
                           APIError_Message = ''limit: '' @ msg_limit\<rparr>] else []) @
                   (if \<exists>v. Params_TypeId params = Some v \<and> sint v < 1
                    then [\<lparr>APIError_Code = ErrCodeValidationError,
                           APIError_Message = ''type_id: '' @ msg_type_id\<rparr>] else []) @
                   (if \<exists>v. Params_BreweryId params = Some v \<and> sint v < 1
                    then [\<lparr>APIError_Code = ErrCodeValidationError,
                           APIError_Message = ''brewery_id: '' @ msg_brewery_id\<rparr>] else []))"
proof -
  let ?fs = "(case Params_Offset params of None \<Rightarrow> [] | Some v \<Rightarrow> if sint v < 0 then [(''offset'', msg_offset)] else []) @
               (case Params_Limit params of None \<Rightarrow> [] | Some v \<Rightarrow> if sint v < 1 \<or> 100 < sint v then [(''limit'', msg_limit)] else []) @
               (case Params_TypeId params of None \<Rightarrow> [] | Some v \<Rightarrow> if sint v < 1 then [(''type_id'', msg_type_id)] else []) @
               (case Params_BreweryId params of None \<Rightarrow> [] | Some v \<Rightarrow> if sint v < 1 then [(''brewery_id'', msg_brewery_id)] else [])"
  from assms have ne: "?fs \<noteq> []" by (auto split: option.splits)
  then have v: "validateListSakesParams params =
      Some (ValidationError ErrCodeValidationError msg_invalid_params StatusBadRequest None ?fs)"
    unfolding validateListSakesParams_Fields Let_def by simp
  show ?thesis
    unfolding ListSakes_def v 
    by (auto simp: handleError_def split: option.splits)
qed

theorem ListSakes_rejects_invalid_params_witness:
  "\<exists>errs.
     ListSakes (MockListSakesUsecase (None, None))
       \<lparr>Params_TypeId = None, Params_BreweryId = Some 0, Params_Offset = Some (- 1),
        Params_Limit = Some 101\<rparr> [] =
       (JSON 400 (ErrorResponse \<lparr>ErrorResponse_Data = None, ErrorResponse_Errors = Some errs\<rparr>), []) \<and>
     mset errs =
       {#\<lparr>APIError_Code = ''VALIDATION_ERROR'', APIError_Message = ''offset: '' @ msg_offset\<rparr>,
         \<lparr>APIError_Code = ''VALIDATION_ERROR'', APIError_Message = ''limit: '' @ msg_limit\<rparr>,
         \<lparr>APIError_Code = ''VALIDATION_ERROR'', APIError_Message = ''brewery_id: '' @ msg_brewery_id\<rparr>#}"
proof -
  let ?p = "\<lparr>Params_TypeId = None, Params_BreweryId = Some 0, Params_Offset = Some (- 1),
        Params_Limit = Some 101\<rparr>"
  have "\<exists>v. Params_Offset ?p = Some v \<and> sint v < 0" by simp
  then obtain errs where
    "ListSakes (MockListSakesUsecase (None, None)) ?p [] =
       (JSON StatusBadRequest
          (ErrorResponse \<lparr>ErrorResponse_Data = None, ErrorResponse_Errors = Some errs\<rparr>), [])"
    and "mset errs =
       mset ((if \<exists>v. Params_Offset ?p = Some v \<and> sint v < 0
              then [\<lparr>APIError_Code = ErrCodeValidationError,
                     APIError_Message = ''offset: '' @ msg_offset\<rparr>] else []) @
             (if \<exists>v. Params_Limit ?p = Some v \<and> (sint v < 1 \<or> 100 < sint v)
              then [\<lparr>APIError_Code = ErrCodeValidationError,
                     APIError_Message = ''limit: '' @ msg_limit\<rparr>] else []) @
             (if \<exists>v. Params_TypeId ?p = Some v \<and> sint v < 1
              then [\<lparr>APIError_Code = ErrCodeValidationError,
                     APIError_Message = ''type_id: '' @ msg_type_id\<rparr>] else []) @
             (if \<exists>v. Params_BreweryId ?p = Some v \<and> sint v < 1
              then [\<lparr>APIError_Code = ErrCodeValidationError,
                     APIError_Message = ''brewery_id: '' @ msg_brewery_id\<rparr>] else []))"
    using ListSakes_rejects_invalid_params [of ?p "MockListSakesUsecase (None, None)" "[]" "(None, None)" "[]"] by blast
  then show ?thesis
    by (intro exI [of _ errs]) (simp add: StatusBadRequest_def ErrCodeValidationError_def)
qed

text \<open>
  C7. When all four rules pass, the handler calls the use case once, with offset 0 when
  the offset parameter is absent and limit 20 when the limit parameter is absent, and with
  the given values when they are present; the answer is what the handler makes of the use
  case's result on that input.
\<close>

theorem ListSakes_applies_defaults:
  assumes "\<forall>v. Params_Offset params = Some v \<longrightarrow> 0 \<le> sint v"
      and "\<forall>v. Params_Limit params = Some v \<longrightarrow> 1 \<le> sint v \<and> sint v \<le> 100"
      and "\<forall>v. Params_TypeId params = Some v \<longrightarrow> 1 \<le> sint v"
      and "\<forall>v. Params_BreweryId params = Some v \<longrightarrow> 1 \<le> sint v"
  shows "\<exists>input.
           Input_Offset input = (case Params_Offset params of None \<Rightarrow> 0 | Some v \<Rightarrow> v) \<and>
           Input_Limit input = (case Params_Limit params of None \<Rightarrow> 20 | Some v \<Rightarrow> v) \<and>
           (\<forall>canned calls. snd (ListSakes (MockListSakesUsecase canned) params calls) = calls @ [input]) \<and>
           (\<forall>(listSakesUsecase :: 'w ListSakesUsecaseInterface) w.
              ListSakes listSakesUsecase params w =
                (case listSakesUsecase input w of
                   ((output, Some e), w') \<Rightarrow> (handleError e, w')
                 | ((None, None), w') \<Rightarrow> (Panic, w')
                 | ((Some out, None), w') \<Rightarrow>
                     (JSON StatusOK (ListSakesResponse (toListSakesResponse out)), w')))"
proof -
  have v: "validateListSakesParams params = None"
    using assms unfolding validateListSakesParams_Fields Let_def
    by (auto split: option.splits simp: not_less)
  show ?thesis
    apply (rule exI [of _ "\<lparr>Input_TypeID = Params_TypeId params,
                                    Input_BreweryID = Params_BreweryId params,
                                    Input_Offset = (case Params_Offset params of None \<Rightarrow> 0 | Some v \<Rightarrow> v),
                                    Input_Limit = (case Params_Limit params of None \<Rightarrow> 20 | Some v \<Rightarrow> v)\<rparr>"])
    unfolding ListSakes_def v
    by (auto simp: MockListSakesUsecase_def Let_def split: option.splits prod.splits)
qed

theorem ListSakes_applies_defaults_witness:
  "\<exists>input. Input_Offset input = 0 \<and> Input_Limit input = 50 \<and>
      snd (ListSakes (MockListSakesUsecase (None, None))
             \<lparr>Params_TypeId = Some 1, Params_BreweryId = None, Params_Offset = None,
              Params_Limit = Some 50\<rparr> []) = [input]"
proof -
  let ?p = "\<lparr>Params_TypeId = Some 1, Params_BreweryId = None, Params_Offset = None,
             Params_Limit = Some 50\<rparr>"
  obtain input
    where "Input_Offset input = (case Params_Offset ?p of None \<Rightarrow> 0 | Some v \<Rightarrow> v)"
      and "Input_Limit input = (case Params_Limit ?p of None \<Rightarrow> 20 | Some v \<Rightarrow> v)"
      and "\<forall>canned calls.
             snd (ListSakes (MockListSakesUsecase canned) ?p calls) = calls @ [input]"
    using ListSakes_applies_defaults [of ?p] by auto
  then show ?thesis
    by (intro exI [of _ input]) simp
qed

end
